theory Spec2Isabelle
  imports Complex_Main
begin

section \<open>Values of the JavaScript runtime\<close>

text \<open>
  A JavaScript \<open>number\<close>: a finite value, or one of the three non-finite values.
  \<open>Number.isFinite\<close> separates them.
\<close>

datatype jsnum = Num rat | NaN | PosInfinity | NegInfinity


text \<open>
  A finite JavaScript number is an IEEE 754 double; \<open>Num q\<close> stands for the double
  whose value is the rational \<open>q\<close> (the two zeros are not told apart). \<open>toDouble\<close> is
  the conversion of an exact value to a number, as \<open>Number(...)\<close> does it on a numeric
  string: round to the nearest double, ties to the even significand, with 53 bits of
  significand, the exponent range of binary64 (subnormals below \<open>2^-1022\<close>) and the
  infinities from \<open>2^1024\<close> on.
\<close>

text \<open>The number of digits of a positive integer in base \<open>b\<close>.\<close>

function digitCount :: "int \<Rightarrow> int \<Rightarrow> int" where
  "digitCount b n = (if n \<le> 0 \<or> b < 2 then 0 else 1 + digitCount b (n div b))"
  by pat_completeness auto
termination
  by (relation "measure (\<lambda>(b, n). nat n)") (auto simp: div_int_pos_iff intro!: int_div_less_self)

text \<open>\<open>b\<close> to an integer power, and the integer part of the logarithm of a positive rational.\<close>

definition powq :: "int \<Rightarrow> int \<Rightarrow> rat" where
  "powq b k = (if 0 \<le> k then of_int b ^ nat k else 1 / of_int b ^ nat (- k))"

definition ilog :: "int \<Rightarrow> rat \<Rightarrow> int" where
  "ilog b a =
     (case quotient_of a of
        (p, q) \<Rightarrow>
          (let d = digitCount b p - digitCount b q
           in if powq b d \<le> a then d else d - 1))"

definition roundHalfEven :: "rat \<Rightarrow> int" where
  "roundHalfEven x =
     (let f = \<lfloor>x\<rfloor>; r = x - of_int f
      in if r < 1 / 2 then f
         else if 1 / 2 < r then f + 1
         else if even f then f else f + 1)"

text \<open>
  With \<open>e\<close> the binary exponent of the value (not below -1022), the doubles around it are
  the multiples of \<open>2^(e - 52)\<close>; the rounded multiple reaches \<open>2^1024\<close> exactly when
  \<open>e\<close> is 1023 and the significand rounds up to \<open>2^53\<close>.
\<close>

definition toDouble :: "rat \<Rightarrow> jsnum" where
  "toDouble q =
     (if q = 0 then Num 0
      else
        (let a = \<bar>q\<bar>;
             e = max (ilog 2 a) (- 1022);
             ulp = powq 2 (e - 52);
             n = roundHalfEven (a / ulp);
             r = of_int n * ulp
         in if 1023 < e \<or> (e = 1023 \<and> 2 ^ 53 \<le> n)
            then (if 0 < q then PosInfinity else NegInfinity)
            else Num (if 0 < q then r else - r)))"

text \<open>
  A \<open>Prisma.Decimal\<close>: an exact decimal value of any precision, or one of the non-finite
  values the decimal library also has. \<open>Number(d)\<close> goes through the decimal's digits
  and rounds them to a double.
\<close>

datatype decimal = Dec rat | DecNaN | DecInfinity | DecNegInfinity

fun Number_of :: "decimal \<Rightarrow> jsnum" where
  "Number_of (Dec q) = toDouble q"
| "Number_of DecNaN = NaN"
| "Number_of DecInfinity = PosInfinity"
| "Number_of DecNegInfinity = NegInfinity"

text \<open>
  \<open>new Prisma.Decimal(n)\<close> for a number \<open>n\<close> reads the digits of \<open>n.toString()\<close>: the
  decimal with the fewest significant digits that still converts back to \<open>n\<close>, and among
  those the one closest to \<open>n\<close> (the even one on a tie). \<open>shortestFrom fuel k a\<close> looks
  for it among the decimals of \<open>k\<close>, \<open>k + 1\<close>, ... significant digits next to the positive
  value \<open>a\<close>; 17 digits are enough for every double.
\<close>

fun shortestFrom :: "nat \<Rightarrow> int \<Rightarrow> rat \<Rightarrow> rat" where
  "shortestFrom 0 k a = a"
| "shortestFrom (Suc fuel) k a =
     (let m = k - 1 - ilog 10 a;
          s = \<lfloor>a * powq 10 m\<rfloor>;
          lo = of_int s / powq 10 m;
          hi = of_int (s + 1) / powq 10 m;
          okLo = (toDouble lo = Num a);
          okHi = (toDouble hi = Num a)
      in if okLo \<and> okHi then
           (if a - lo < hi - a then lo
            else if hi - a < a - lo then hi
            else if even s then lo else hi)
         else if okLo then lo
         else if okHi then hi
         else shortestFrom fuel (k + 1) a)"

fun newDecimal :: "jsnum \<Rightarrow> decimal" where
  "newDecimal (Num q) =
     Dec (if q = 0 then 0
          else if 0 < q then shortestFrom 17 1 q
          else - shortestFrom 17 1 (- q))"
| "newDecimal NaN = DecNaN"
| "newDecimal PosInfinity = DecInfinity"
| "newDecimal NegInfinity = DecNegInfinity"

text \<open>A value decoded from JSON; \<open>JNull\<close> stands for both \<open>null\<close> and \<open>undefined\<close>.\<close>

datatype json =
    JNull
  | JBool bool
  | JNum jsnum
  | JStr string
  | JArr "json list"
  | JObj "(string \<times> json) list"

text \<open>A \<open>Date\<close> object: an instant in milliseconds since the epoch, or Invalid Date.\<close>

datatype jsdate = Date int | InvalidDate

text \<open>Every thrown error of the engine, as a value.\<close>

datatype error =
    HostNotFound nat
  | MissingRefreshToken nat
  | MissingClientCredentials
  | VendorHttpError nat
  | NoAccessTokenInResponse
  | PersistFailed
  | ListingNotFound nat
  | ListingNotLinked nat
  | RangeError
  | TypeError
  | PrismaValidationError

text \<open>Truthiness of an optional string: \<open>null\<close>, \<open>undefined\<close> and \<open>""\<close> are falsy.\<close>

fun truthy :: "string option \<Rightarrow> bool" where
  "truthy None = False"
| "truthy (Some s) = (s \<noteq> [])"

text \<open>The operator \<open>a ?? b\<close> on optional values.\<close>

fun orElse :: "'a option \<Rightarrow> 'a option \<Rightarrow> 'a option" where
  "orElse (Some a) b = Some a"
| "orElse None b = b"

fun orDefault :: "'a option \<Rightarrow> 'a \<Rightarrow> 'a" where
  "orDefault (Some a) b = a"
| "orDefault None b = b"

section \<open>Data model\<close>

subsection \<open>Host credential record\<close>

record Host =
  host_id :: nat
  guestyAccountId :: "string option"
  guestyAccessToken :: "string option"
  guestyRefreshToken :: "string option"
  guestyTokenType :: "string option"
  guestyScope :: "string option"
  guestyExpiresAt :: "int option"

record GuestyTokenResponse =
  access_token :: "string option"
  refresh_token :: "string option"
  token_type :: "string option"
  scope :: "string option"
  expires_in :: "int option"

subsection \<open>Vendor listing payloads\<close>

record GuestyAddress =
  a_full :: "string option"
  a_street :: "string option"
  a_line1 :: "string option"
  a_line2 :: "string option"
  a_address1 :: "string option"
  a_address2 :: "string option"
  a_apt :: "string option"
  a_city :: "string option"
  a_state :: "string option"
  a_province :: "string option"
  a_zip :: "string option"
  a_postalCode :: "string option"
  a_country :: "string option"

record GuestyLocation =
  loc_lat :: "jsnum option"
  loc_lng :: "jsnum option"
  loc_latitude :: "jsnum option"
  loc_longitude :: "jsnum option"

record GuestyListing =
  g_uid :: "string option"
  g_id :: "string option"
  g_title :: "string option"
  g_name :: "string option"
  g_description :: "string option"
  g_propertyType :: "string option"
  g_propertyTypeCategory :: "string option"
  g_bedrooms :: "jsnum option"
  g_bathrooms :: "jsnum option"
  g_beds :: "jsnum option"
  g_accommodates :: "jsnum option"
  g_maxGuests :: "jsnum option"
  g_address :: "GuestyAddress option"
  g_location :: "GuestyLocation option"
  g_geo :: "GuestyLocation option"
  g_amenities :: "string list option"
  g_pictures :: "json option"
  g_images :: "json option"
  g_basePrice :: "jsnum option"
  g_defaultDailyPrice :: "jsnum option"
  g_dailyRate :: "jsnum option"

record GuestyListResponse =
  lr_results :: "GuestyListing list option"
  lr_data :: "GuestyListing list option"
  lr_page :: "int option"
  lr_pages :: "int option"
  lr_limit :: "int option"

subsection \<open>Listing records\<close>

text \<open>
  The \<open>update\<close> argument of the upsert carries the descriptive attributes; the
  \<open>create\<close> argument carries the same attributes, the vendor identifier and the owning
  host; a stored Listing row carries the attributes, its own key, the vendor identifier and
  the owning host.
\<close>

record ListingUpdate =
  title :: string
  description :: "string option"
  propertyType :: "string option"
  bedrooms :: "jsnum option"
  bathrooms :: "jsnum option"
  beds :: "jsnum option"
  maxGuests :: "jsnum option"
  addressLine1 :: "string option"
  addressLine2 :: "string option"
  city :: "string option"
  state :: "string option"
  postalCode :: "string option"
  country :: "string option"
  latitude :: "jsnum option"
  longitude :: "jsnum option"
  photos :: json
  amenities :: "string list"
  basePrice :: "decimal option"

record ListingCreate = ListingUpdate +
  create_guestyId :: string
  create_host :: nat

record Listing = ListingUpdate +
  listing_id :: nat
  guestyId :: "string option"
  hostId :: nat

subsection \<open>Calendar days\<close>

record GuestyAvailabilityDay =
  raw_date :: "string option"
  raw_available :: "bool option"
  raw_price :: "jsnum option"
  raw_nightlyPrice :: "jsnum option"
  raw_basePrice :: "jsnum option"
  raw_defaultDailyPrice :: "jsnum option"
  raw_minimumStay :: "jsnum option"
  raw_minNights :: "jsnum option"
  raw_minStay :: "jsnum option"

record GuestyAvailabilityResponse =
  ar_results :: "GuestyAvailabilityDay list option"
  ar_days :: "GuestyAvailabilityDay list option"
  ar_data :: "GuestyAvailabilityDay list option"

record CalendarDay =
  listingId :: nat
  date :: jsdate
  available :: bool
  price :: decimal
  minStay :: jsnum

subsection \<open>Jobs, effects and the state of the world\<close>

datatype job =
    SyncListings nat
  | SyncSingleListing nat json
  | SyncCalendar nat
  | SyncAllHosts

text \<open>
  The effects the engine performs, in the order it performs them: requests to the vendor
  and writes to the stores.
\<close>

datatype effect =
    TokenRequest string
  | HostWrite nat
  | ListingsPageRequest nat nat
  | ListingRequest string
  | ListingUpsert string
  | AvailabilityRequest string string string
  | CalendarDayUpsert nat jsdate

record world =
  hosts :: "Host list"
  listings :: "Listing list"
  calendarDays :: "CalendarDay list"
  queue :: "job list"
  trace :: "effect list"

text \<open>
  What the engine reads from outside: the process environment, the clock at each place
  the code reads it, the vendor's answers (\<open>Inl\<close> when the HTTP client throws), and the
  functions of the JavaScript runtime on dates and strings.
\<close>

record env =
  GUESTY_CLIENT_ID :: "string option"
  GUESTY_CLIENT_SECRET :: "string option"
  now_check :: int
  now_refresh :: int
  now_calendar :: int
  tokenEndpoint :: "string \<Rightarrow> error + GuestyTokenResponse"
  listingsEndpoint :: "string \<Rightarrow> nat \<Rightarrow> nat \<Rightarrow> error + GuestyListResponse"
  listingEndpoint :: "string \<Rightarrow> string \<Rightarrow> error + GuestyListing"
  availabilityEndpoint :: "string \<Rightarrow> string \<Rightarrow> string \<Rightarrow> string \<Rightarrow> error + GuestyAvailabilityResponse"
  parseDate :: "string \<Rightarrow> jsdate"
  getUTCFullYear :: "int \<Rightarrow> int"
  getUTCMonth :: "int \<Rightarrow> int"
  getUTCDate :: "int \<Rightarrow> int"
  dateUTC :: "int \<Rightarrow> int \<Rightarrow> int \<Rightarrow> jsdate"
  setUTCMonth :: "int \<Rightarrow> int \<Rightarrow> jsdate"
  toISOString :: "int \<Rightarrow> string"
  jsonParse :: "string \<Rightarrow> json option"
  runtimeToString :: "json \<Rightarrow> error + string"

section \<open>Token Manager (lib/guestyToken.ts)\<close>

definition TOKEN_EXPIRY_BUFFER_MS :: int where
  "TOKEN_EXPIRY_BUFFER_MS = 5 * 60 * 1000"

text \<open>\<open>prisma.host.findUnique({ where: { id } })\<close>\<close>

definition findHost :: "world \<Rightarrow> nat \<Rightarrow> Host option" where
  "findHost w hid = find (\<lambda>h. host_id h = hid) (hosts w)"

text \<open>\<open>prisma.host.update({ where: { id }, data })\<close>: one write to the credential store.\<close>

definition updateHost :: "nat \<Rightarrow> Host \<Rightarrow> world \<Rightarrow> world" where
  "updateHost hid h' w =
     w\<lparr>hosts := map (\<lambda>h. if host_id h = hid then h' else h) (hosts w),
       trace := trace w @ [HostWrite hid]\<rparr>"

text \<open>
  \<open>getGuestyAccessToken\<close>. The result is the returned token or the thrown error, together
  with the world after the call.
\<close>

definition getGuestyAccessToken :: "env \<Rightarrow> world \<Rightarrow> nat \<Rightarrow> (error + string) \<times> world" where
  "getGuestyAccessToken e w hid =
     (case findHost w hid of
        None \<Rightarrow> (Inl (HostNotFound hid), w)
      | Some host \<Rightarrow>
          if truthy (guestyAccessToken host) \<and> guestyExpiresAt host \<noteq> None
             \<and> the (guestyExpiresAt host) - now_check e > TOKEN_EXPIRY_BUFFER_MS
          then (Inr (the (guestyAccessToken host)), w)
          else if \<not> truthy (guestyRefreshToken host)
          then (Inl (MissingRefreshToken hid), w)
          else if \<not> truthy (GUESTY_CLIENT_ID e) \<or> \<not> truthy (GUESTY_CLIENT_SECRET e)
          then (Inl MissingClientCredentials, w)
          else
            let w1 = w\<lparr>trace := trace w @ [TokenRequest (the (guestyRefreshToken host))]\<rparr> in
            (case tokenEndpoint e (the (guestyRefreshToken host)) of
               Inl err \<Rightarrow> (Inl err, w1)
             | Inr data \<Rightarrow>
                 if \<not> truthy (access_token data)
                 then (Inl NoAccessTokenInResponse, w1)
                 else
                   let expiresAt =
                         (case expires_in data of
                            Some s \<Rightarrow> Some (now_refresh e + s * 1000)
                          | None \<Rightarrow> None);
                       updatedHost = host
                         \<lparr>guestyAccessToken := access_token data,
                          guestyRefreshToken := orElse (refresh_token data) (guestyRefreshToken host),
                          guestyTokenType := orElse (token_type data) (guestyTokenType host),
                          guestyScope := orElse (scope data) (guestyScope host),
                          guestyExpiresAt := orElse expiresAt (guestyExpiresAt host)\<rparr>;
                       w2 = updateHost hid updatedHost w1
                   in if \<not> truthy (guestyAccessToken updatedHost)
                      then (Inl PersistFailed, w2)
                      else (Inr (the (guestyAccessToken updatedHost)), w2)))"

section \<open>Listing Synchronizer (services/listingSync.ts)\<close>

definition DEFAULT_PAGE_SIZE :: nat where
  "DEFAULT_PAGE_SIZE = 50"

definition extractGuestyId :: "GuestyListing \<Rightarrow> string option" where
  "extractGuestyId listing = orElse (g_uid listing) (g_id listing)"

text \<open>The empty object \<open>{}\<close> that stands in for a missing address or location.\<close>

definition emptyAddress :: GuestyAddress where
  "emptyAddress =
     \<lparr>a_full = None, a_street = None, a_line1 = None, a_line2 = None, a_address1 = None,
      a_address2 = None, a_apt = None, a_city = None, a_state = None, a_province = None,
      a_zip = None, a_postalCode = None, a_country = None\<rparr>"

definition emptyLocation :: GuestyLocation where
  "emptyLocation = \<lparr>loc_lat = None, loc_lng = None, loc_latitude = None, loc_longitude = None\<rparr>"

text \<open>
  \<open>mapGuestyListingToPrismaData\<close> returns the pair \<open>{ create, update }\<close>. The source
  writes the attributes out twice, once in each object, and so does the model.
  (\<open>calendarDays: { create: [] }\<close> creates no day and has no counterpart here.)
\<close>

definition mapGuestyListingToPrismaData :: "GuestyListing \<Rightarrow> nat \<Rightarrow> ListingCreate \<times> ListingUpdate" where
  "mapGuestyListingToPrismaData guesty hid =
     (let address = orDefault (g_address guesty) emptyAddress;
          loc = orDefault (orElse (g_location guesty) (g_geo guesty)) emptyLocation;
          title' = orDefault (orElse (orElse (g_title guesty) (g_name guesty)) (a_full address))
                     ''Untitled listing'';
          photos' = orDefault (orElse (g_pictures guesty) (g_images guesty)) (JArr []);
          amenities' = orDefault (g_amenities guesty) [];
          basePriceNumber =
            orDefault (orElse (orElse (g_basePrice guesty) (g_defaultDailyPrice guesty))
                         (g_dailyRate guesty)) (Num 0);
          basePriceDecimal = newDecimal basePriceNumber;
          create =
            \<lparr>title = title',
             description = g_description guesty,
             propertyType = orElse (g_propertyType guesty) (g_propertyTypeCategory guesty),
             bedrooms = g_bedrooms guesty,
             bathrooms = g_bathrooms guesty,
             beds = g_beds guesty,
             maxGuests = orElse (g_maxGuests guesty) (g_accommodates guesty),
             addressLine1 = orElse (orElse (a_street address) (a_line1 address)) (a_address1 address),
             addressLine2 = orElse (orElse (a_apt address) (a_line2 address)) (a_address2 address),
             city = a_city address,
             state = orElse (a_state address) (a_province address),
             postalCode = orElse (a_zip address) (a_postalCode address),
             country = a_country address,
             latitude = (case loc_lat loc of Some x \<Rightarrow> Some x | None \<Rightarrow> loc_latitude loc),
             longitude = (case loc_lng loc of Some x \<Rightarrow> Some x | None \<Rightarrow> loc_longitude loc),
             photos = photos',
             amenities = amenities',
             basePrice = Some basePriceDecimal,
             create_guestyId = orDefault (extractGuestyId guesty) [],
             create_host = hid\<rparr>;
          update =
            \<lparr>title = title',
             description = g_description guesty,
             propertyType = orElse (g_propertyType guesty) (g_propertyTypeCategory guesty),
             bedrooms = g_bedrooms guesty,
             bathrooms = g_bathrooms guesty,
             beds = g_beds guesty,
             maxGuests = orElse (g_maxGuests guesty) (g_accommodates guesty),
             addressLine1 = orElse (orElse (a_street address) (a_line1 address)) (a_address1 address),
             addressLine2 = orElse (orElse (a_apt address) (a_line2 address)) (a_address2 address),
             city = a_city address,
             state = orElse (a_state address) (a_province address),
             postalCode = orElse (a_zip address) (a_postalCode address),
             country = a_country address,
             latitude = (case loc_lat loc of Some x \<Rightarrow> Some x | None \<Rightarrow> loc_latitude loc),
             longitude = (case loc_lng loc of Some x \<Rightarrow> Some x | None \<Rightarrow> loc_longitude loc),
             photos = photos',
             amenities = amenities',
             basePrice = Some basePriceDecimal\<rparr>
      in (create, update))"

subsection \<open>\<open>prisma.listing.upsert({ where: { guestyId }, create, update })\<close>\<close>

definition nextListingId :: "world \<Rightarrow> nat" where
  "nextListingId w = Suc (foldr max (map listing_id (listings w)) 0)"

definition createListing :: "nat \<Rightarrow> ListingCreate \<Rightarrow> Listing" where
  "createListing n c =
     \<lparr>title = title c,
      description = description c,
      propertyType = propertyType c,
      bedrooms = bedrooms c,
      bathrooms = bathrooms c,
      beds = beds c,
      maxGuests = maxGuests c,
      addressLine1 = addressLine1 c,
      addressLine2 = addressLine2 c,
      city = city c,
      state = state c,
      postalCode = postalCode c,
      country = country c,
      latitude = latitude c,
      longitude = longitude c,
      photos = photos c,
      amenities = amenities c,
      basePrice = basePrice c,
      listing_id = n,
      guestyId = Some (create_guestyId c),
      hostId = create_host c\<rparr>"

definition applyUpdate :: "ListingUpdate \<Rightarrow> Listing \<Rightarrow> Listing" where
  "applyUpdate u l =
     l\<lparr>title := title u,
       description := description u,
       propertyType := propertyType u,
       bedrooms := bedrooms u,
       bathrooms := bathrooms u,
       beds := beds u,
       maxGuests := maxGuests u,
       addressLine1 := addressLine1 u,
       addressLine2 := addressLine2 u,
       city := city u,
       state := state u,
       postalCode := postalCode u,
       country := country u,
       latitude := latitude u,
       longitude := longitude u,
       photos := photos u,
       amenities := amenities u,
       basePrice := basePrice u\<rparr>"

text \<open>
  The row whose vendor identifier is the key is updated in place; when there is none, a
  row is created from \<open>create\<close>. The upsert returns the row it wrote.
\<close>

definition upsertListing :: "string \<Rightarrow> ListingCreate \<Rightarrow> ListingUpdate \<Rightarrow> world \<Rightarrow> Listing \<times> world" where
  "upsertListing key c u w =
     (case find (\<lambda>l. guestyId l = Some key) (listings w) of
        Some l \<Rightarrow>
          (applyUpdate u l,
           w\<lparr>listings := map (\<lambda>x. if guestyId x = Some key then applyUpdate u x else x) (listings w),
             trace := trace w @ [ListingUpsert key]\<rparr>)
      | None \<Rightarrow>
          (createListing (nextListingId w) c,
           w\<lparr>listings := listings w @ [createListing (nextListingId w) c],
             trace := trace w @ [ListingUpsert key]\<rparr>))"

subsection \<open>\<open>syncAllListingsForHost\<close>\<close>

text \<open>The \<open>for\<close> loop over the records of one page.\<close>

fun syncRecords :: "nat \<Rightarrow> GuestyListing list \<Rightarrow> Listing list \<Rightarrow> world \<Rightarrow> Listing list \<times> world" where
  "syncRecords hid [] syncedListings w = (syncedListings, w)"
| "syncRecords hid (raw # rest) syncedListings w =
     (let guestyId' = extractGuestyId raw in
      if \<not> truthy guestyId' then syncRecords hid rest syncedListings w
      else
        (case mapGuestyListingToPrismaData raw hid of
           (create, update) \<Rightarrow>
             (case upsertListing (the guestyId') create update w of
                (listing, w') \<Rightarrow> syncRecords hid rest (syncedListings @ [listing]) w')))"

text \<open>Truthiness of \<open>data.pages\<close>: a page count that is present and not zero.\<close>

fun truthyCount :: "int option \<Rightarrow> bool" where
  "truthyCount None = False"
| "truthyCount (Some n) = (n \<noteq> 0)"

text \<open>
  The \<open>while (true)\<close> loop over the pages. Nothing in the source bounds it, so the model
  takes fuel, one unit for each page request; \<open>None\<close> means that the loop has not returned
  within the fuel.
\<close>

fun syncPages :: "nat \<Rightarrow> env \<Rightarrow> string \<Rightarrow> nat \<Rightarrow> nat \<Rightarrow> Listing list \<Rightarrow> world
    \<Rightarrow> ((error + Listing list) \<times> world) option" where
  "syncPages 0 e accessToken hid page syncedListings w = None"
| "syncPages (Suc fuel) e accessToken hid page syncedListings w =
     (let limit = DEFAULT_PAGE_SIZE;
          w1 = w\<lparr>trace := trace w @ [ListingsPageRequest page limit]\<rparr> in
      case listingsEndpoint e accessToken page limit of
        Inl err \<Rightarrow> Some (Inl err, w1)
      | Inr data \<Rightarrow>
          (let rawListings = orDefault (orElse (lr_results data) (lr_data data)) [] in
           if length rawListings = 0 then Some (Inr syncedListings, w1)
           else
             (case syncRecords hid rawListings syncedListings w1 of
                (syncedListings', w2) \<Rightarrow>
                  if truthyCount (lr_pages data) \<and> int page \<ge> the (lr_pages data)
                  then Some (Inr syncedListings', w2)
                  else if \<not> truthyCount (lr_pages data) \<and> length rawListings < limit
                  then Some (Inr syncedListings', w2)
                  else syncPages fuel e accessToken hid (page + 1) syncedListings' w2)))"

definition syncAllListingsForHost :: "nat \<Rightarrow> env \<Rightarrow> world \<Rightarrow> nat
    \<Rightarrow> ((error + Listing list) \<times> world) option" where
  "syncAllListingsForHost fuel e w hid =
     (case getGuestyAccessToken e w hid of
        (Inl err, w1) \<Rightarrow> Some (Inl err, w1)
      | (Inr accessToken, w1) \<Rightarrow> syncPages fuel e accessToken hid 1 [] w1)"

subsection \<open>\<open>syncListingByGuestyId\<close>\<close>

definition syncListingByGuestyId :: "env \<Rightarrow> world \<Rightarrow> nat \<Rightarrow> string \<Rightarrow> (error + Listing) \<times> world" where
  "syncListingByGuestyId e w hid guestyListingId =
     (case getGuestyAccessToken e w hid of
        (Inl err, w1) \<Rightarrow> (Inl err, w1)
      | (Inr accessToken, w1) \<Rightarrow>
          (let w2 = w1\<lparr>trace := trace w1 @ [ListingRequest guestyListingId]\<rparr> in
           case listingEndpoint e accessToken guestyListingId of
             Inl err \<Rightarrow> (Inl err, w2)
           | Inr data \<Rightarrow>
               (let guestyId' = orDefault (extractGuestyId data) guestyListingId in
                case mapGuestyListingToPrismaData data hid of
                  (create, update) \<Rightarrow>
                    (case upsertListing guestyId' (create\<lparr>create_guestyId := guestyId'\<rparr>) update w2 of
                       (listing, w3) \<Rightarrow> (Inr listing, w3)))))"

section \<open>Calendar Synchronizer (services/calendarSync.ts)\<close>







definition basePriceNumber :: "Listing \<Rightarrow> GuestyAvailabilityDay \<Rightarrow> jsnum" where
  "basePriceNumber listing raw =
     orDefault
       (orElse (orElse (orElse (raw_price raw) (raw_nightlyPrice raw)) (raw_basePrice raw))
          (raw_defaultDailyPrice raw))
       (case basePrice listing of Some d \<Rightarrow> Number_of d | None \<Rightarrow> Num 0)"




section \<open>Event Router (routes/webhooks.ts)\<close>

subsection \<open>Property access on decoded JSON\<close>

text \<open>
  \<open>v.k\<close>: a TypeError on \<open>null\<close> and \<open>undefined\<close>, the member on an object, \<open>undefined\<close>
  when the object has no such member or the value is a primitive or an array (none of the
  names the handler reads is a member of those).
\<close>

fun getProp :: "json \<Rightarrow> string \<Rightarrow> error + json" where
  "getProp JNull k = Inl TypeError"
| "getProp (JObj kvs) k = Inr (case map_of kvs k of None \<Rightarrow> JNull | Some v \<Rightarrow> v)"
| "getProp v k = Inr JNull"

text \<open>\<open>x?.k\<close>, where evaluating \<open>x\<close> may have thrown.\<close>

fun optProp :: "error + json \<Rightarrow> string \<Rightarrow> error + json" where
  "optProp (Inl err) k = Inl err"
| "optProp (Inr v) k = (if v = JNull then Inr JNull else getProp v k)"

text \<open>\<open>a ?? b\<close>, where evaluating either side may have thrown; \<open>b\<close> counts only when \<open>a\<close> is nullish.\<close>

fun coalesce :: "error + json \<Rightarrow> error + json \<Rightarrow> error + json" where
  "coalesce (Inl err) b = Inl err"
| "coalesce (Inr v) b = (if v = JNull then b else Inr v)"

fun jtruthy :: "json \<Rightarrow> bool" where
  "jtruthy JNull = False"
| "jtruthy (JBool b) = b"
| "jtruthy (JNum n) = (case n of Num q \<Rightarrow> q \<noteq> 0 | NaN \<Rightarrow> False | PosInfinity \<Rightarrow> True | NegInfinity \<Rightarrow> True)"
| "jtruthy (JStr s) = (s \<noteq> [])"
| "jtruthy (JArr xs) = True"
| "jtruthy (JObj kvs) = True"

text \<open>
  \<open>v.toString()\<close>: a string is its own value; for every other value the conversion belongs
  to the runtime (it throws when the object carries a member \<open>toString\<close> of its own, which
  decoded JSON can never make callable).
\<close>

definition jsToString :: "env \<Rightarrow> json \<Rightarrow> error + string" where
  "jsToString e v =
     (case v of
        JStr s \<Rightarrow> Inr s
      | JNull \<Rightarrow> Inl TypeError
      | _ \<Rightarrow> runtimeToString e v)"

subsection \<open>The handler\<close>

definition LISTING_EVENTS :: "string list" where
  "LISTING_EVENTS = [''listing.created'', ''listing.updated'']"

definition RESERVATION_EVENTS :: "string list" where
  "RESERVATION_EVENTS = [''reservation.created'', ''reservation.updated'', ''reservation.cancelled'']"

text \<open>
  \<open>prisma.host.findUnique({ where: { guestyAccountId } })\<close> and
  \<open>prisma.listing.findUnique({ where: { guestyId } })\<close>: the store rejects a key that is
  not a string.
\<close>

definition findHostByAccountId :: "world \<Rightarrow> json \<Rightarrow> error + Host option" where
  "findHostByAccountId w accountId =
     (case accountId of
        JStr s \<Rightarrow> Inr (find (\<lambda>h. guestyAccountId h = Some s) (hosts w))
      | _ \<Rightarrow> Inl PrismaValidationError)"

definition findListingByGuestyId :: "world \<Rightarrow> json \<Rightarrow> error + Listing option" where
  "findListingByGuestyId w gid =
     (case gid of
        JStr s \<Rightarrow> Inr (find (\<lambda>l. guestyId l = Some s) (listings w))
      | _ \<Rightarrow> Inl PrismaValidationError)"

definition resolveHostIdFromPayload :: "world \<Rightarrow> json \<Rightarrow> error + nat option" where
  "resolveHostIdFromPayload w body =
     (case coalesce (coalesce (coalesce (coalesce (coalesce
              (getProp body ''accountId'') (getProp body ''account_id''))
              (getProp body ''integrationId'')) (getProp body ''integration_id''))
              (getProp body ''account'')) (getProp body ''accountID'') of
        Inl err \<Rightarrow> Inl err
      | Inr accountId \<Rightarrow>
          if \<not> jtruthy accountId then Inr None
          else
            (case findHostByAccountId w accountId of
               Inl err \<Rightarrow> Inl err
             | Inr host \<Rightarrow> Inr (map_option host_id host)))"

definition extractGuestyListingId :: "json \<Rightarrow> error + json" where
  "extractGuestyListingId body =
     (let fromListing =
            coalesce (coalesce (coalesce
              (optProp (getProp body ''listing'') ''_id'')
              (optProp (getProp body ''listing'') ''id''))
              (getProp body ''listingId''))
              (getProp body ''listing_id'');
          fromReservation =
            coalesce (coalesce (coalesce
              (optProp (optProp (getProp body ''reservation'') ''listing'') ''_id'')
              (optProp (optProp (getProp body ''reservation'') ''listing'') ''id''))
              (optProp (getProp body ''reservation'') ''listingId''))
              (optProp (getProp body ''reservation'') ''listing_id'');
          topLevel = coalesce (getProp body ''_id'') (getProp body ''id'')
      in case fromListing of
           Inl err \<Rightarrow> Inl err
         | Inr _ \<Rightarrow>
             (case fromReservation of
                Inl err \<Rightarrow> Inl err
              | Inr _ \<Rightarrow>
                  (case topLevel of
                     Inl err \<Rightarrow> Inl err
                   | Inr _ \<Rightarrow>
                       coalesce (coalesce (coalesce fromListing fromReservation) topLevel)
                         (Inr JNull))))"

text \<open>The request body as the handler finds it on the request object.\<close>

datatype rawBody = RawBuffer string | RawString string | RawOther json

datatype response = Response nat json

definition decodeBody :: "env \<Rightarrow> rawBody \<Rightarrow> json" where
  "decodeBody e raw =
     (case raw of
        RawBuffer s \<Rightarrow> (case jsonParse e s of None \<Rightarrow> JObj [] | Some v \<Rightarrow> v)
      | RawString s \<Rightarrow> (case jsonParse e s of None \<Rightarrow> JObj [] | Some v \<Rightarrow> v)
      | RawOther v \<Rightarrow> (if v = JNull then JObj [] else v))"

text \<open>\<open>void syncQueue.add(...)\<close>\<close>

definition enqueue :: "job \<Rightarrow> world \<Rightarrow> world" where
  "enqueue j w = w\<lparr>queue := queue w @ [j]\<rparr>"

text \<open>
  The body of the \<open>try\<close> block: \<open>Inl\<close> is the error that reaches the \<open>catch\<close>. In the
  listing branch a throw of \<open>extractGuestyListingId\<close> is synchronous and comes first; a
  failure of \<open>resolveHostIdFromPayload\<close> is the rejection of its promise.
\<close>

definition dispatchEvent :: "world \<Rightarrow> json \<Rightarrow> string \<Rightarrow> (error + unit) \<times> world" where
  "dispatchEvent w body eventType =
     (if eventType \<in> set LISTING_EVENTS then
        (case extractGuestyListingId body of
           Inl err \<Rightarrow> (Inl err, w)
         | Inr guestyListingId \<Rightarrow>
             (case resolveHostIdFromPayload w body of
                Inl err \<Rightarrow> (Inl err, w)
              | Inr hostId' \<Rightarrow>
                  if hostId' \<noteq> None \<and> jtruthy guestyListingId
                  then (Inr (), enqueue (SyncSingleListing (the hostId') guestyListingId) w)
                  else (Inr (), w)))
      else if eventType \<in> set RESERVATION_EVENTS then
        (case extractGuestyListingId body of
           Inl err \<Rightarrow> (Inl err, w)
         | Inr guestyListingId \<Rightarrow>
             if jtruthy guestyListingId then
               (case findListingByGuestyId w guestyListingId of
                  Inl err \<Rightarrow> (Inl err, w)
                | Inr None \<Rightarrow> (Inr (), w)
                | Inr (Some listing) \<Rightarrow> (Inr (), enqueue (SyncCalendar (listing_id listing)) w))
             else (Inr (), w))
      else (Inr (), w))"

text \<open>The constant \<open>eventType\<close>: \<open>(body.event ?? body.type ?? "").toString()\<close>.\<close>

definition eventTypeOf :: "env \<Rightarrow> json \<Rightarrow> error + string" where
  "eventTypeOf e body =
     (case coalesce (coalesce (getProp body ''event'') (getProp body ''type'')) (Inr (JStr [])) of
        Inl err \<Rightarrow> Inl err
      | Inr v \<Rightarrow> jsToString e v)"

text \<open>
  \<open>router.post("/guesty", ...)\<close>. \<open>Inr\<close> is the response the handler sends; \<open>Inl\<close> is an
  error that leaves the handler, in which case no response is sent. The event type
  (\<open>eventTypeOf\<close>) is computed before the \<open>try\<close> block; whatever the \<open>try\<close> block
  throws is caught and dropped.
\<close>

definition guestyWebhook :: "env \<Rightarrow> rawBody \<Rightarrow> world \<Rightarrow> (error + response) \<times> world" where
  "guestyWebhook e raw w =
     (let body = decodeBody e raw in
      case eventTypeOf e body of
        Inl err \<Rightarrow> (Inl err, w)
      | Inr eventType \<Rightarrow>
          (case dispatchEvent w body eventType of
             (_, w') \<Rightarrow> (Inr (Response 200 (JObj [(''ok'', JBool True)])), w')))"

section \<open>Notions used in the properties\<close>

text \<open>A write to the credential store, among the effects.\<close>

fun isHostWrite :: "effect \<Rightarrow> bool" where
  "isHostWrite (HostWrite h) = True"
| "isHostWrite x = False"

text \<open>A page request to the vendor, and an upsert of a listing, among the effects.\<close>

fun isPageRequest :: "effect \<Rightarrow> bool" where
  "isPageRequest (ListingsPageRequest p l) = True"
| "isPageRequest x = False"


text \<open>
  The invariant of the host credential record, in the words of the data model: if the
  access token is non-null, the expiry timestamp is non-null.
\<close>

definition credentialInvariant :: "Host \<Rightarrow> bool" where
  "credentialInvariant h = (guestyAccessToken h \<noteq> None \<longrightarrow> guestyExpiresAt h \<noteq> None)"

text \<open>A vendor record carries a vendor identifier when \<open>extractGuestyId\<close> finds a non-empty one.\<close>

definition hasVendorId :: "GuestyListing \<Rightarrow> bool" where
  "hasVendorId raw = truthy (extractGuestyId raw)"





section \<open>Concrete worlds\<close>

text \<open>
  An environment whose clock stands at the epoch, whose vendor rejects every request, and
  whose date functions count days from 1 January 1970 (enough for the first days of 1970
  and for the day six months later).
\<close>

definition exampleEnv :: env where
  "exampleEnv =
     \<lparr>GUESTY_CLIENT_ID = Some ''client'',
      GUESTY_CLIENT_SECRET = Some ''secret'',
      now_check = 0,
      now_refresh = 0,
      now_calendar = 0,
      tokenEndpoint = (\<lambda>rt. Inl (VendorHttpError 401)),
      listingsEndpoint = (\<lambda>tok page limit. Inl (VendorHttpError 500)),
      listingEndpoint = (\<lambda>tok gid. Inl (VendorHttpError 404)),
      availabilityEndpoint = (\<lambda>tok gid s t. Inl (VendorHttpError 500)),
      parseDate = (\<lambda>s. if s = ''1970-01-02'' then Date 86400000 else Date 0),
      getUTCFullYear = (\<lambda>t. 1970),
      getUTCMonth = (\<lambda>t. 0),
      getUTCDate = (\<lambda>t. t div 86400000 + 1),
      dateUTC = (\<lambda>y m d. Date ((d - 1) * 86400000)),
      setUTCMonth = (\<lambda>t m. Date (t + 181 * 86400000)),
      toISOString = (\<lambda>t. if t = 0 then ''1970-01-01T00:00:00.000Z''
                          else ''1970-07-01T00:00:00.000Z''),
      jsonParse = (\<lambda>s. None),
      runtimeToString = (\<lambda>v. Inr ''[object Object]'')\<rparr>"

definition exampleHost :: Host where
  "exampleHost =
     \<lparr>host_id = 1,
      guestyAccountId = Some ''acct-1'',
      guestyAccessToken = Some ''tok-1'',
      guestyRefreshToken = Some ''refresh-1'',
      guestyTokenType = Some ''Bearer'',
      guestyScope = None,
      guestyExpiresAt = Some 1000000\<rparr>"

definition exampleWorld :: world where
  "exampleWorld = \<lparr>hosts = [exampleHost], listings = [], calendarDays = [], queue = [], trace = []\<rparr>"

text \<open>A host whose stored access token is the empty string, with an expiry far ahead.\<close>

definition emptyTokenWorld :: world where
  "emptyTokenWorld = exampleWorld\<lparr>hosts := [exampleHost\<lparr>guestyAccessToken := Some []\<rparr>]\<rparr>"

text \<open>The clock 4 minutes 59 seconds before the expiry of \<open>exampleHost\<close>.\<close>

definition lateEnv :: env where
  "lateEnv = exampleEnv\<lparr>now_check := 701000\<rparr>"

text \<open>A host with a refresh token and neither access token nor expiry.\<close>

definition noTokenWorld :: world where
  "noTokenWorld =
     exampleWorld\<lparr>hosts := [exampleHost\<lparr>guestyAccessToken := None, guestyExpiresAt := None\<rparr>]\<rparr>"

text \<open>A vendor that answers the refresh grant without \<open>expires_in\<close>, and one that reports an hour.\<close>

definition noLifetimeEnv :: env where
  "noLifetimeEnv =
     exampleEnv\<lparr>tokenEndpoint := (\<lambda>rt. Inr \<lparr>access_token = Some ''tok-2'', refresh_token = None,
        token_type = None, scope = None, expires_in = None\<rparr>)\<rparr>"

definition refreshEnv :: env where
  "refreshEnv =
     exampleEnv\<lparr>now_check := 900000, now_refresh := 900500,
       tokenEndpoint := (\<lambda>rt. Inr \<lparr>access_token = Some ''tok-2'', refresh_token = None,
         token_type = None, scope = None, expires_in = Some 3600\<rparr>)\<rparr>"

definition emptyGuestyListing :: GuestyListing where
  "emptyGuestyListing =
     \<lparr>g_uid = None, g_id = None, g_title = None, g_name = None, g_description = None,
      g_propertyType = None, g_propertyTypeCategory = None, g_bedrooms = None,
      g_bathrooms = None, g_beds = None, g_accommodates = None, g_maxGuests = None,
      g_address = None, g_location = None, g_geo = None, g_amenities = None,
      g_pictures = None, g_images = None, g_basePrice = None, g_defaultDailyPrice = None,
      g_dailyRate = None\<rparr>"

text \<open>The vendor's listing \<open>xyz\<close>, which it also returns when asked for \<open>abc\<close>.\<close>

definition exampleListing :: GuestyListing where
  "exampleListing =
     emptyGuestyListing\<lparr>g_uid := Some ''xyz'', g_title := Some ''Loft'', g_basePrice := Some (Num 120)\<rparr>"

definition listingEnv :: env where
  "listingEnv = exampleEnv\<lparr>listingEndpoint := (\<lambda>tok gid. Inr exampleListing)\<rparr>"

text \<open>A vendor collection of 113 listings, every one with an identifier, served in pages of 50.\<close>

definition numberedListing :: "nat \<Rightarrow> GuestyListing" where
  "numberedListing i = emptyGuestyListing\<lparr>g_uid := Some (replicate (Suc i) CHR ''x'')\<rparr>"

definition pageOf :: "GuestyListing list \<Rightarrow> GuestyListResponse" where
  "pageOf rs = \<lparr>lr_results = Some rs, lr_data = None, lr_page = None, lr_pages = None, lr_limit = None\<rparr>"

definition pagesEnv :: env where
  "pagesEnv =
     exampleEnv\<lparr>listingsEndpoint := (\<lambda>tok page limit.
       if page = 1 then Inr (pageOf (map numberedListing [0..<50]))
       else if page = 2 then Inr (pageOf (map numberedListing [50..<100]))
       else if page = 3 then Inr (pageOf (map numberedListing [100..<113]))
       else Inr (pageOf []))\<rparr>"



text \<open>A world in which listing \<open>xyz\<close> is stored with base price 120.00, and one where it has none.\<close>

definition exampleRow :: Listing where
  "exampleRow = createListing 7 (fst (mapGuestyListingToPrismaData exampleListing 1))"

definition calendarWorld :: world where
  "calendarWorld = exampleWorld\<lparr>listings := [exampleRow]\<rparr>"






text \<open>
  Two webhook bodies that name an account no host has: a listing event, and a reservation
  event for the stored listing \<open>xyz\<close>.
\<close>

definition listingEventBody :: json where
  "listingEventBody =
     JObj [(''event'', JStr ''listing.updated''), (''accountId'', JStr ''nobody''),
           (''listingId'', JStr ''xyz'')]"

definition reservationEventBody :: json where
  "reservationEventBody =
     JObj [(''event'', JStr ''reservation.updated''), (''accountId'', JStr ''nobody''),
           (''listingId'', JStr ''xyz'')]"

text \<open>A vendor whose answer for a single listing carries no identifier at all.\<close>

definition anonymousListingEnv :: env where
  "anonymousListingEnv = exampleEnv\<lparr>listingEndpoint := (\<lambda>tok gid. Inr emptyGuestyListing)\<rparr>"


section \<open>Token Manager: properties\<close>

lemma token_early_return:
  assumes "findHost w hid = Some host"
    and "truthy (guestyAccessToken host)" and "guestyExpiresAt host = Some t"
    and "t - now_check e > 300000"
  shows "getGuestyAccessToken e w hid = (Inr (the (guestyAccessToken host)), w)"
  using assms by (simp add: getGuestyAccessToken_def TOKEN_EXPIRY_BUFFER_MS_def)

lemma token_no_early_return:
  assumes "findHost w hid = Some host"
    and "\<not> (truthy (guestyAccessToken host) \<and> guestyExpiresAt host \<noteq> None
             \<and> the (guestyExpiresAt host) - now_check e > 300000)"
  shows "(\<exists>err. getGuestyAccessToken e w hid = (Inl err, w)) \<or>
         (\<exists>r rest. getGuestyAccessToken e w hid =
              (r, w\<lparr>hosts := hosts (snd (getGuestyAccessToken e w hid)),
                    trace := trace w @ TokenRequest (the (guestyRefreshToken host)) # rest\<rparr>))"
  using assms
  by (auto simp: getGuestyAccessToken_def TOKEN_EXPIRY_BUFFER_MS_def Let_def updateHost_def
      split: sum.splits option.splits)

lemma token_write_cases:
  assumes "findHost w hid = Some host"
    and "getGuestyAccessToken e w hid = (r, w')"
  shows "w' = w \<or> w' = w\<lparr>trace := trace w @ [TokenRequest (the (guestyRefreshToken host))]\<rparr>
     \<or> (\<exists>data. tokenEndpoint e (the (guestyRefreshToken host)) = Inr data
          \<and> truthy (access_token data)
          \<and> w' = updateHost hid
               (host\<lparr>guestyAccessToken := access_token data,
                     guestyRefreshToken := orElse (refresh_token data) (guestyRefreshToken host),
                     guestyTokenType := orElse (token_type data) (guestyTokenType host),
                     guestyScope := orElse (scope data) (guestyScope host),
                     guestyExpiresAt :=
                       (case expires_in data of
                          Some s \<Rightarrow> Some (now_refresh e + s * 1000)
                        | None \<Rightarrow> guestyExpiresAt host)\<rparr>)
               (w\<lparr>trace := trace w @ [TokenRequest (the (guestyRefreshToken host))]\<rparr>))"
  using assms
  by (auto simp: getGuestyAccessToken_def Let_def split: sum.splits option.splits if_splits)

lemma token_frame:
  "listings (snd (getGuestyAccessToken e w hid)) = listings w
   \<and> calendarDays (snd (getGuestyAccessToken e w hid)) = calendarDays w
   \<and> queue (snd (getGuestyAccessToken e w hid)) = queue w"
  by (auto simp: getGuestyAccessToken_def Let_def updateHost_def split: sum.splits option.splits)

text \<open>
  C3, as the claim states it, fails: a stored access token that is the empty string is
  non-null, yet the guard of the early return tests its truthiness. With the token \<open>""\<close>
  and an expiry 1000 seconds ahead, the stored token is not returned and a refresh request
  goes to the vendor.
\<close>

theorem C3_empty_token_counterexample:
  "guestyAccessToken (hd (hosts emptyTokenWorld)) \<noteq> None
   \<and> guestyExpiresAt (hd (hosts emptyTokenWorld)) = Some 1000000
   \<and> 1000000 - now_check exampleEnv > 5 * 60 * 1000
   \<and> fst (getGuestyAccessToken exampleEnv emptyTokenWorld 1) = Inl (VendorHttpError 401)
   \<and> trace (snd (getGuestyAccessToken exampleEnv emptyTokenWorld 1)) = [TokenRequest ''refresh-1'']"
  by (simp add: getGuestyAccessToken_def emptyTokenWorld_def exampleWorld_def exampleHost_def
      exampleEnv_def findHost_def TOKEN_EXPIRY_BUFFER_MS_def)

text \<open>
  C3, amended: for every credential record holding a non-empty access token and a
  non-null expiry, \<open>getGuestyAccessToken\<close> returns the stored token and leaves the world as
  it was (no request to the vendor, no write) exactly when the expiry is strictly more
  than 5 minutes (300000 ms) after the current time; when the remaining lifetime does not
  exceed 5 minutes (4 minutes 59 seconds, say) and a refresh token and the client
  credentials are there, the next effect of the call is the refresh request to the vendor.
\<close>

theorem C3_token_buffer:
  assumes "findHost w hid = Some host"
    and "guestyAccessToken host = Some tok" and "tok \<noteq> []"
    and "guestyExpiresAt host = Some t"
  shows "((getGuestyAccessToken e w hid = (Inr tok, w)) \<longleftrightarrow> t - now_check e > 5 * 60 * 1000)
    \<and> (t - now_check e \<le> 5 * 60 * 1000 \<and> truthy (guestyRefreshToken host) \<and>
         truthy (GUESTY_CLIENT_ID e) \<and> truthy (GUESTY_CLIENT_SECRET e) \<longrightarrow>
         (\<exists>rest. trace (snd (getGuestyAccessToken e w hid)) =
            trace w @ TokenRequest (the (guestyRefreshToken host)) # rest))"
proof (cases "t - now_check e > 300000")
  case True
  with assms token_early_return[of w hid host t e] show ?thesis by simp
next
  case False
  with assms have ne: "\<not> (truthy (guestyAccessToken host) \<and> guestyExpiresAt host \<noteq> None
             \<and> the (guestyExpiresAt host) - now_check e > 300000)" by simp
  have a: "getGuestyAccessToken e w hid \<noteq> (Inr tok, w)"
  proof
    assume eq: "getGuestyAccessToken e w hid = (Inr tok, w)"
    from token_no_early_return[OF assms(1) ne] eq
    obtain rest where "w = w\<lparr>hosts := hosts w,
        trace := trace w @ TokenRequest (the (guestyRefreshToken host)) # rest\<rparr>"
      by auto
    then have "trace w = trace (w\<lparr>hosts := hosts w,
        trace := trace w @ TokenRequest (the (guestyRefreshToken host)) # rest\<rparr>)"
      by (rule arg_cong)
    then show False by simp
  qed
  have b: "truthy (guestyRefreshToken host) \<and>
         truthy (GUESTY_CLIENT_ID e) \<and> truthy (GUESTY_CLIENT_SECRET e) \<longrightarrow>
         (\<exists>rest. trace (snd (getGuestyAccessToken e w hid)) =
            trace w @ TokenRequest (the (guestyRefreshToken host)) # rest)"
    using assms False
    by (auto simp: getGuestyAccessToken_def TOKEN_EXPIRY_BUFFER_MS_def Let_def updateHost_def
      split: sum.splits option.splits)
  from a b False show ?thesis by simp
qed

text \<open>
  The theorem at work: with 1000 seconds left the stored token comes back untouched; with
  4 minutes 59 seconds left the refresh request is sent.
\<close>

theorem C3_token_buffer_witness:
  "getGuestyAccessToken exampleEnv exampleWorld 1 = (Inr ''tok-1'', exampleWorld)
   \<and> 1000000 - now_check lateEnv = 299000
   \<and> getGuestyAccessToken lateEnv exampleWorld 1 \<noteq> (Inr ''tok-1'', exampleWorld)
   \<and> (\<exists>rest. trace (snd (getGuestyAccessToken lateEnv exampleWorld 1)) =
         TokenRequest ''refresh-1'' # rest)"
proof -
  have h: "findHost exampleWorld 1 = Some exampleHost"
    by (simp add: findHost_def exampleWorld_def exampleHost_def)
  have f: "guestyAccessToken exampleHost = Some ''tok-1''" "''tok-1'' \<noteq> []"
    "guestyExpiresAt exampleHost = Some 1000000"
    by (simp_all add: exampleHost_def)
  from C3_token_buffer[OF h f, of exampleEnv] C3_token_buffer[OF h f, of lateEnv]
  show ?thesis
    by (simp add: exampleEnv_def lateEnv_def exampleHost_def exampleWorld_def)
qed

text \<open>
  C4, as the claim states it, fails: when the vendor's answer carries no \<open>expires_in\<close>,
  the write keeps the previous expiry, and that may be null. The record below satisfies
  the invariant before the call (no access token) and breaks it after the write.
\<close>

theorem C4_missing_lifetime_counterexample:
  "credentialInvariant (hd (hosts noTokenWorld))
   \<and> fst (getGuestyAccessToken noLifetimeEnv noTokenWorld 1) = Inr ''tok-2''
   \<and> map guestyAccessToken (hosts (snd (getGuestyAccessToken noLifetimeEnv noTokenWorld 1)))
       = [Some ''tok-2'']
   \<and> map guestyExpiresAt (hosts (snd (getGuestyAccessToken noLifetimeEnv noTokenWorld 1)))
       = [None]
   \<and> \<not> credentialInvariant (hd (hosts (snd (getGuestyAccessToken noLifetimeEnv noTokenWorld 1))))"
  by (simp add: getGuestyAccessToken_def noTokenWorld_def noLifetimeEnv_def exampleWorld_def
      exampleHost_def exampleEnv_def findHost_def TOKEN_EXPIRY_BUFFER_MS_def updateHost_def
      credentialInvariant_def)

text \<open>
  C4, amended: whenever a call of the Token Manager writes to the credential store, the
  vendor has answered the refresh grant with an access token, and the write stores that
  non-null access token together with the expiry \<open>now + lifetime\<close> (current time of the
  write plus 1000 ms for each reported second) when the vendor reports a lifetime, and the
  previous expiry otherwise; all other host records stay as they were. So the invariant
  (access token non-null implies expiry non-null) is preserved by every write for which
  the vendor reports a lifetime or the previous expiry was non-null.
\<close>

theorem C4_refresh_write:
  assumes "findHost w hid = Some host"
    and "getGuestyAccessToken e w hid = (r, w')"
    and "hosts w' \<noteq> hosts w \<or> filter isHostWrite (trace w') \<noteq> filter isHostWrite (trace w)"
  shows "\<exists>data. tokenEndpoint e (the (guestyRefreshToken host)) = Inr data
     \<and> access_token data \<noteq> None
     \<and> hosts w' = map (\<lambda>h. if host_id h = hid
          then host\<lparr>guestyAccessToken := access_token data,
                     guestyRefreshToken := orElse (refresh_token data) (guestyRefreshToken host),
                     guestyTokenType := orElse (token_type data) (guestyTokenType host),
                     guestyScope := orElse (scope data) (guestyScope host),
                     guestyExpiresAt :=
                       (case expires_in data of
                          Some s \<Rightarrow> Some (now_refresh e + s * 1000)
                        | None \<Rightarrow> guestyExpiresAt host)\<rparr>
          else h) (hosts w)
     \<and> ((expires_in data \<noteq> None \<or> guestyExpiresAt host \<noteq> None) \<and>
          (\<forall>h\<in>set (hosts w). credentialInvariant h)
          \<longrightarrow> (\<forall>h\<in>set (hosts w'). credentialInvariant h))"
proof -
  from token_write_cases[OF assms(1,2)] assms(3)
  obtain data where d: "tokenEndpoint e (the (guestyRefreshToken host)) = Inr data"
    "truthy (access_token data)"
    and w': "w' = updateHost hid
               (host\<lparr>guestyAccessToken := access_token data,
                     guestyRefreshToken := orElse (refresh_token data) (guestyRefreshToken host),
                     guestyTokenType := orElse (token_type data) (guestyTokenType host),
                     guestyScope := orElse (scope data) (guestyScope host),
                     guestyExpiresAt :=
                       (case expires_in data of
                          Some s \<Rightarrow> Some (now_refresh e + s * 1000)
                        | None \<Rightarrow> guestyExpiresAt host)\<rparr>)
               (w\<lparr>trace := trace w @ [TokenRequest (the (guestyRefreshToken host))]\<rparr>)"
    by auto
  from d(2) have nn: "access_token data \<noteq> None" by (cases "access_token data") auto
  show ?thesis
    apply (rule exI[of _ data])
    using d nn w'
    by (auto simp: updateHost_def credentialInvariant_def split: option.splits)
qed

text \<open>
  The theorem at work: the vendor reports 3600 seconds at time 900500, the stored expiry
  becomes 900500 + 3600000, and the invariant holds after the write.
\<close>

theorem C4_refresh_write_witness:
  "map guestyExpiresAt (hosts (snd (getGuestyAccessToken refreshEnv exampleWorld 1)))
     = [Some (900500 + 3600 * 1000)]
   \<and> list_all credentialInvariant (hosts (snd (getGuestyAccessToken refreshEnv exampleWorld 1)))"
proof -
  have h: "findHost exampleWorld 1 = Some exampleHost"
    by (simp add: findHost_def exampleWorld_def exampleHost_def)
  have r: "getGuestyAccessToken refreshEnv exampleWorld 1
      = (fst (getGuestyAccessToken refreshEnv exampleWorld 1),
         snd (getGuestyAccessToken refreshEnv exampleWorld 1))"
    by simp
  have c: "hosts (snd (getGuestyAccessToken refreshEnv exampleWorld 1)) \<noteq> hosts exampleWorld
     \<or> filter isHostWrite (trace (snd (getGuestyAccessToken refreshEnv exampleWorld 1)))
        \<noteq> filter isHostWrite (trace exampleWorld)"
    by (simp add: getGuestyAccessToken_def refreshEnv_def exampleWorld_def
      exampleHost_def exampleEnv_def findHost_def TOKEN_EXPIRY_BUFFER_MS_def updateHost_def)
  have i: "\<forall>h\<in>set (hosts exampleWorld). credentialInvariant h"
    by (simp add: exampleWorld_def exampleHost_def credentialInvariant_def)
  from C4_refresh_write[OF h r c] i show ?thesis
    by (auto simp: refreshEnv_def exampleWorld_def exampleHost_def exampleEnv_def list_all_iff)
qed

text \<open>
  C9: every call of \<open>getGuestyAccessToken\<close> appends to the effects at most one write to the
  credential store. A write, or any change of the host records, happens only on the
  refresh path: the early return was not taken, a refresh token was stored, and the vendor
  answered the exchange with an access token. On the early-return path the whole world is
  left as it was; so it is, the host records in particular, on every path that fails
  before the exchange has succeeded.
\<close>

theorem C9_at_most_one_write:
  "\<exists>es. trace (snd (getGuestyAccessToken e w hid)) = trace w @ es
     \<and> length (filter isHostWrite es) \<le> 1
     \<and> (filter isHostWrite es \<noteq> [] \<or> hosts (snd (getGuestyAccessToken e w hid)) \<noteq> hosts w \<longrightarrow>
          (\<exists>host data. findHost w hid = Some host
             \<and> \<not> (truthy (guestyAccessToken host) \<and> guestyExpiresAt host \<noteq> None
                   \<and> the (guestyExpiresAt host) - now_check e > 5 * 60 * 1000)
             \<and> truthy (guestyRefreshToken host)
             \<and> tokenEndpoint e (the (guestyRefreshToken host)) = Inr data
             \<and> truthy (access_token data)))
     \<and> (\<forall>host. findHost w hid = Some host \<and> truthy (guestyAccessToken host)
             \<and> guestyExpiresAt host \<noteq> None
             \<and> the (guestyExpiresAt host) - now_check e > 5 * 60 * 1000
           \<longrightarrow> getGuestyAccessToken e w hid = (Inr (the (guestyAccessToken host)), w))"
  by (auto simp: getGuestyAccessToken_def TOKEN_EXPIRY_BUFFER_MS_def Let_def updateHost_def
      split: sum.splits option.splits)

text \<open>
  The theorem at work on a refresh (one write) and on an early return (world unchanged).
\<close>

theorem C9_at_most_one_write_witness:
  "filter isHostWrite (trace (snd (getGuestyAccessToken refreshEnv exampleWorld 1))) = [HostWrite 1]
   \<and> tokenEndpoint refreshEnv ''refresh-1'' \<noteq> Inl (VendorHttpError 401)
   \<and> getGuestyAccessToken exampleEnv exampleWorld 1 = (Inr ''tok-1'', exampleWorld)"
proof -
  have h: "findHost exampleWorld 1 = Some exampleHost"
    by (simp add: findHost_def exampleWorld_def exampleHost_def)
  have t: "filter isHostWrite (trace (snd (getGuestyAccessToken refreshEnv exampleWorld 1)))
      = [HostWrite 1]"
    by (simp add: getGuestyAccessToken_def refreshEnv_def exampleWorld_def
      exampleHost_def exampleEnv_def findHost_def TOKEN_EXPIRY_BUFFER_MS_def updateHost_def)
  from C9_at_most_one_write[of refreshEnv exampleWorld 1]
  obtain es where es: "trace (snd (getGuestyAccessToken refreshEnv exampleWorld 1)) = trace exampleWorld @ es"
    and imp: "filter isHostWrite es \<noteq> [] \<or> hosts (snd (getGuestyAccessToken refreshEnv exampleWorld 1)) \<noteq> hosts exampleWorld \<longrightarrow>
          (\<exists>host data. findHost exampleWorld 1 = Some host
             \<and> \<not> (truthy (guestyAccessToken host) \<and> guestyExpiresAt host \<noteq> None
                   \<and> the (guestyExpiresAt host) - now_check refreshEnv > 5 * 60 * 1000)
             \<and> truthy (guestyRefreshToken host)
             \<and> tokenEndpoint refreshEnv (the (guestyRefreshToken host)) = Inr data
             \<and> truthy (access_token data))"
    by blast
  from es t have "filter isHostWrite es \<noteq> []" by (simp add: exampleWorld_def)
  with imp h have a: "tokenEndpoint refreshEnv ''refresh-1'' \<noteq> Inl (VendorHttpError 401)"
    by (auto simp: exampleHost_def)
  have n: "now_check exampleEnv = 0" by (simp add: exampleEnv_def)
  from C9_at_most_one_write[of exampleEnv exampleWorld 1]
  have "\<forall>host. findHost exampleWorld 1 = Some host \<and> truthy (guestyAccessToken host)
             \<and> guestyExpiresAt host \<noteq> None
             \<and> the (guestyExpiresAt host) - now_check exampleEnv > 5 * 60 * 1000
           \<longrightarrow> getGuestyAccessToken exampleEnv exampleWorld 1
                 = (Inr (the (guestyAccessToken host)), exampleWorld)"
    by blast
  with h n have b: "getGuestyAccessToken exampleEnv exampleWorld 1 = (Inr ''tok-1'', exampleWorld)"
    by (simp add: exampleHost_def)
  from t a b show ?thesis by simp
qed

section \<open>Listing Synchronizer: properties\<close>

lemma map_create_guestyId:
  "create_guestyId (fst (mapGuestyListingToPrismaData raw hid)) = orDefault (extractGuestyId raw) []"
  by (simp add: mapGuestyListingToPrismaData_def Let_def)

lemma applyUpdate_guestyId: "guestyId (applyUpdate u l) = guestyId l"
  by (simp add: applyUpdate_def)

lemma applyUpdate_idem: "applyUpdate u (applyUpdate u l) = applyUpdate u l"
  by (simp add: applyUpdate_def)

lemma applyUpdate_create:
  "mapGuestyListingToPrismaData data hid = (c, u) \<Longrightarrow>
   applyUpdate u (createListing n (c\<lparr>create_guestyId := k\<rparr>)) = createListing n (c\<lparr>create_guestyId := k\<rparr>)"
  by (auto simp: mapGuestyListingToPrismaData_def Let_def applyUpdate_def createListing_def)

lemma find_map_update:
  "find (\<lambda>l. guestyId l = Some key) (map (\<lambda>x. if guestyId x = Some key then applyUpdate u x else x) ls)
   = map_option (applyUpdate u) (find (\<lambda>l. guestyId l = Some key) ls)"
  by (induction ls) (auto simp: applyUpdate_guestyId)

lemma find_app:
  "find P (xs @ ys) = (case find P xs of None \<Rightarrow> find P ys | Some x \<Rightarrow> Some x)"
  by (induction xs) auto

lemma upsert_guestyId:
  "create_guestyId c = key \<Longrightarrow> guestyId (fst (upsertListing key c u w)) = Some key"
  by (auto simp: upsertListing_def createListing_def find_Some_iff applyUpdate_guestyId
      split: option.splits)

lemma upsert_trace:
  "trace (snd (upsertListing key c u w)) = trace w @ [ListingUpsert key]
   \<and> hosts (snd (upsertListing key c u w)) = hosts w"
  by (auto simp: upsertListing_def split: option.splits)

lemma filter_map_update:
  "filter (\<lambda>l. guestyId l = Some key) (map (\<lambda>x. if guestyId x = Some key then applyUpdate u x else x) ls)
   = map (applyUpdate u) (filter (\<lambda>l. guestyId l = Some key) ls)"
  by (induction ls) (auto simp: applyUpdate_guestyId)

lemma upsert_count:
  assumes "create_guestyId c = key"
  shows "length (filter (\<lambda>l. guestyId l = Some key) (listings (snd (upsertListing key c u w))))
    = max 1 (length (filter (\<lambda>l. guestyId l = Some key) (listings w)))"
proof (cases "find (\<lambda>l. guestyId l = Some key) (listings w)")
  case None
  then have "filter (\<lambda>l. guestyId l = Some key) (listings w) = []"
    by (auto simp: find_None_iff filter_empty_conv)
  with None assms show ?thesis
    by (simp add: upsertListing_def createListing_def)
next
  case (Some l)
  then have "filter (\<lambda>l. guestyId l = Some key) (listings w) \<noteq> []"
    by (auto simp: find_Some_iff filter_empty_conv)
  then have "1 \<le> length (filter (\<lambda>l. guestyId l = Some key) (listings w))"
    by (cases "filter (\<lambda>l. guestyId l = Some key) (listings w)") auto
  with Some show ?thesis
    by (simp add: upsertListing_def filter_map_update)
qed

lemma upsert_twice:
  assumes "mapGuestyListingToPrismaData data hid = (c0, u)" and "c = c0\<lparr>create_guestyId := key\<rparr>"
    and "upsertListing key c u w = (l, w1)"
    and "listings wx = listings w1"
  shows "fst (upsertListing key c u wx) = l \<and> listings (snd (upsertListing key c u wx)) = listings w1"
proof (cases "find (\<lambda>l. guestyId l = Some key) (listings w)")
  case None
  with assms(3) have l: "l = createListing (nextListingId w) c"
    and w1: "listings w1 = listings w @ [l]"
    by (auto simp: upsertListing_def)
  have gl: "guestyId l = Some key" using l assms(2) by (simp add: createListing_def)
  from None have nf: "\<forall>x\<in>set (listings w). guestyId x \<noteq> Some key"
    by (auto simp: find_None_iff)
  have f: "find (\<lambda>l. guestyId l = Some key) (listings wx) = Some l"
    using nf gl w1 assms(4) by (simp add: find_app None)
  have au: "applyUpdate u l = l" using l assms(1,2) applyUpdate_create by simp
  have "map (\<lambda>x. if guestyId x = Some key then applyUpdate u x else x) (listings w) = listings w"
    using nf by (simp add: map_idI)
  then show ?thesis using f au w1 assms(4) gl
    by (simp add: upsertListing_def)
next
  case (Some l0)
  with assms(3) have l: "l = applyUpdate u l0"
    and w1: "listings w1 = map (\<lambda>x. if guestyId x = Some key then applyUpdate u x else x) (listings w)"
    by (auto simp: upsertListing_def)
  have f: "find (\<lambda>l. guestyId l = Some key) (listings wx) = Some l"
    using Some l w1 assms(4) by (simp add: find_map_update)
  have m: "map (\<lambda>x. if guestyId x = Some key then applyUpdate u x else x) (listings w1) = listings w1"
    unfolding w1 by (simp add: comp_def if_distrib applyUpdate_guestyId applyUpdate_idem cong: if_cong)
  show ?thesis using f l m assms(4)
    by (simp add: upsertListing_def applyUpdate_idem)
qed

lemma syncListing_success:
  assumes "getGuestyAccessToken e w hid = (Inr tok, w0)"
    and "listingEndpoint e tok gid = Inr data"
    and "key = (case extractGuestyId data of Some i \<Rightarrow> i | None \<Rightarrow> gid)"
    and "mapGuestyListingToPrismaData data hid = (c0, u)"
  shows "syncListingByGuestyId e w hid gid =
     (Inr (fst (upsertListing key (c0\<lparr>create_guestyId := key\<rparr>) u
              (w0\<lparr>trace := trace w0 @ [ListingRequest gid]\<rparr>))),
      snd (upsertListing key (c0\<lparr>create_guestyId := key\<rparr>) u
              (w0\<lparr>trace := trace w0 @ [ListingRequest gid]\<rparr>)))"
proof -
  have k: "orDefault (extractGuestyId data) gid = key"
    using assms(3) by (cases "extractGuestyId data") auto
  show ?thesis using assms(1,2,4) k
    by (simp add: syncListingByGuestyId_def Let_def split: prod.splits)
qed

lemma truthy_the: "truthy x \<Longrightarrow> orDefault x [] = the x \<and> x = Some (the x)"
  by (cases x) auto

lemma syncRecords_result:
  "\<exists>ls w'. syncRecords hid raws acc w = (acc @ ls, w')
     \<and> map guestyId ls = map extractGuestyId (filter hasVendorId raws)
     \<and> trace w' = trace w @ map (\<lambda>r. ListingUpsert (the (extractGuestyId r))) (filter hasVendorId raws)"
proof (induction raws arbitrary: acc w)
  case Nil
  then show ?case by simp
next
  case (Cons raw rest)
  show ?case
  proof (cases "hasVendorId raw")
    case False
    with Cons[of acc w] show ?thesis by (simp add: hasVendorId_def)
  next
    case True
    obtain c u where m: "mapGuestyListingToPrismaData raw hid = (c, u)"
      by (cases "mapGuestyListingToPrismaData raw hid")
    obtain l w1 where up: "upsertListing (the (extractGuestyId raw)) c u w = (l, w1)"
      by (cases "upsertListing (the (extractGuestyId raw)) c u w")
    from True have t: "truthy (extractGuestyId raw)" by (simp add: hasVendorId_def)
    have ck: "create_guestyId c = the (extractGuestyId raw)"
      using map_create_guestyId[of raw hid] m truthy_the[OF t] by simp
    have gl: "guestyId l = extractGuestyId raw"
      using upsert_guestyId[OF ck, of u w] up truthy_the[OF t] by simp
    have tr: "trace w1 = trace w @ [ListingUpsert (the (extractGuestyId raw))]"
      using upsert_trace[of "the (extractGuestyId raw)" c u w] up by simp
    from Cons[of "acc @ [l]" w1] obtain ls w' where
      r: "syncRecords hid rest (acc @ [l]) w1 = ((acc @ [l]) @ ls, w')"
      and g: "map guestyId ls = map extractGuestyId (filter hasVendorId rest)"
      and tt: "trace w' = trace w1 @ map (\<lambda>r. ListingUpsert (the (extractGuestyId r))) (filter hasVendorId rest)"
      by blast
    have "syncRecords hid (raw # rest) acc w = (acc @ (l # ls), w')"
      using t m up r by simp
    moreover have "map guestyId (l # ls) = map extractGuestyId (filter hasVendorId (raw # rest))"
      using True g gl by simp
    moreover have "trace w' = trace w @ map (\<lambda>r. ListingUpsert (the (extractGuestyId r))) (filter hasVendorId (raw # rest))"
      using True tt tr by simp
    ultimately show ?thesis by blast
  qed
qed

lemma syncPages_step:
  assumes "listingsEndpoint e tok page 50 = Inr data"
    and "orDefault (orElse (lr_results data) (lr_data data)) [] = raws"
    and "raws \<noteq> []"
    and "syncRecords hid raws acc (w\<lparr>trace := trace w @ [ListingsPageRequest page 50]\<rparr>) = (acc', w2)"
  shows "syncPages (Suc fuel) e tok hid page acc w =
     (if truthyCount (lr_pages data) \<and> int page \<ge> the (lr_pages data) then Some (Inr acc', w2)
      else if \<not> truthyCount (lr_pages data) \<and> length raws < 50 then Some (Inr acc', w2)
      else syncPages fuel e tok hid (page + 1) acc' w2)"
  using assms by (simp add: DEFAULT_PAGE_SIZE_def Let_def)

lemma syncPages_empty:
  assumes "listingsEndpoint e tok page 50 = Inr data"
    and "orDefault (orElse (lr_results data) (lr_data data)) [] = []"
  shows "syncPages (Suc fuel) e tok hid page acc w =
     Some (Inr acc, w\<lparr>trace := trace w @ [ListingsPageRequest page 50]\<rparr>)"
  using assms by (simp add: DEFAULT_PAGE_SIZE_def Let_def)

lemma syncListing_hosts:
  assumes "getGuestyAccessToken e w hid = (Inr tok, w0)"
  shows "hosts (snd (syncListingByGuestyId e w hid gid)) = hosts w0"
proof (cases "listingEndpoint e tok gid")
  case (Inl err)
  then show ?thesis using assms by (simp add: syncListingByGuestyId_def)
next
  case (Inr data)
  obtain c0 u where m: "mapGuestyListingToPrismaData data hid = (c0, u)"
    by (cases "mapGuestyListingToPrismaData data hid")
  from syncListing_success[OF assms Inr refl m] show ?thesis
    by (simp add: upsert_trace)
qed

lemma syncPages_fails_only_on_fetch:
  "syncPages fuel e tok hid page acc w = Some (Inl err, w') \<Longrightarrow>
   \<exists>p. listingsEndpoint e tok p DEFAULT_PAGE_SIZE = Inl err"
proof (induction fuel arbitrary: page acc w)
  case 0
  then show ?case by simp
next
  case (Suc fuel)
  then show ?case
    by (auto simp: Let_def split: sum.splits prod.splits if_splits)
qed

lemma example_token:
  "findHost exampleWorld 1 = Some exampleHost"
  "truthy (guestyAccessToken exampleHost)"
  "guestyExpiresAt exampleHost = Some 1000000"
  "the (guestyAccessToken exampleHost) = ''tok-1''"
  by (simp_all add: findHost_def exampleWorld_def exampleHost_def)

text \<open>
  C2, as the claim states it, fails: the upsert key is \<open>extractGuestyId(data) ?? guestyListingId\<close>,
  so the identifier of the payload wins over the one of the request. Asked for \<open>abc\<close>, the
  vendor answers with listing \<open>xyz\<close>, and the record is upserted under \<open>xyz\<close>.
\<close>

theorem C2_payload_id_counterexample:
  "listingEndpoint listingEnv ''tok-1'' ''abc'' = Inr exampleListing
   \<and> extractGuestyId exampleListing = Some ''xyz''
   \<and> trace (snd (syncListingByGuestyId listingEnv exampleWorld 1 ''abc''))
       = [ListingRequest ''abc'', ListingUpsert ''xyz'']
   \<and> map guestyId (listings (snd (syncListingByGuestyId listingEnv exampleWorld 1 ''abc'')))
       = [Some ''xyz'']"
proof -
  have t: "getGuestyAccessToken listingEnv exampleWorld 1 = (Inr ''tok-1'', exampleWorld)"
    using token_early_return[OF example_token(1,2,3), of listingEnv]
    by (simp add: listingEnv_def exampleEnv_def example_token(4))
  have d: "listingEndpoint listingEnv ''tok-1'' ''abc'' = Inr exampleListing"
    by (simp add: listingEnv_def)
  have x: "extractGuestyId exampleListing = Some ''xyz''"
    by (simp add: extractGuestyId_def exampleListing_def emptyGuestyListing_def)
  obtain c0 u where m: "mapGuestyListingToPrismaData exampleListing 1 = (c0, u)"
    by (cases "mapGuestyListingToPrismaData exampleListing 1")
  have s: "syncListingByGuestyId listingEnv exampleWorld 1 ''abc'' =
     (Inr (fst (upsertListing ''xyz'' (c0\<lparr>create_guestyId := ''xyz''\<rparr>) u
              (exampleWorld\<lparr>trace := trace exampleWorld @ [ListingRequest ''abc'']\<rparr>))),
      snd (upsertListing ''xyz'' (c0\<lparr>create_guestyId := ''xyz''\<rparr>) u
              (exampleWorld\<lparr>trace := trace exampleWorld @ [ListingRequest ''abc'']\<rparr>)))"
    using syncListing_success[OF t d _ m, of "''xyz''"] x by simp
  have tr: "trace (snd (syncListingByGuestyId listingEnv exampleWorld 1 ''abc''))
       = [ListingRequest ''abc'', ListingUpsert ''xyz'']"
    unfolding s by (simp add: upsert_trace exampleWorld_def)
  have ls: "map guestyId (listings (snd (syncListingByGuestyId listingEnv exampleWorld 1 ''abc'')))
       = [Some ''xyz'']"
    unfolding s by (simp add: upsertListing_def exampleWorld_def createListing_def)
  from d x tr ls show ?thesis by simp
qed

text \<open>
  C2, amended: for every call \<open>syncListingByGuestyId(hostId, guestyListingId)\<close> that gets
  a token and an answer from the vendor, the upsert key of the Listing record is the
  identifier the payload carries (\<open>_id\<close>, else \<open>id\<close>), and the identifier of the request
  only when the payload carries none; the record that comes back has that key as its
  vendor identifier.
\<close>

theorem C2_upsert_key:
  assumes "getGuestyAccessToken e w hid = (Inr tok, w0)"
    and "listingEndpoint e tok gid = Inr data"
  shows "\<exists>l w'. syncListingByGuestyId e w hid gid = (Inr l, w')
     \<and> trace w' = trace w0 @ [ListingRequest gid,
          ListingUpsert (case extractGuestyId data of Some i \<Rightarrow> i | None \<Rightarrow> gid)]
     \<and> guestyId l = Some (case extractGuestyId data of Some i \<Rightarrow> i | None \<Rightarrow> gid)"
proof -
  obtain c0 u where m: "mapGuestyListingToPrismaData data hid = (c0, u)"
    by (cases "mapGuestyListingToPrismaData data hid")
  from syncListing_success[OF assms refl m] show ?thesis
    by (simp add: upsert_trace upsert_guestyId)
qed

text \<open>The theorem at work on a payload with the identifier \<open>xyz\<close> and on one with none.\<close>

theorem C2_upsert_key_witness:
  "(\<exists>l w'. syncListingByGuestyId listingEnv exampleWorld 1 ''abc'' = (Inr l, w')
      \<and> trace w' = [ListingRequest ''abc'', ListingUpsert ''xyz'']
      \<and> guestyId l = Some ''xyz'')
   \<and> (\<exists>l w'. syncListingByGuestyId anonymousListingEnv exampleWorld 1 ''abc'' = (Inr l, w')
      \<and> trace w' = [ListingRequest ''abc'', ListingUpsert ''abc'']
      \<and> guestyId l = Some ''abc'')"
proof -
  have t: "getGuestyAccessToken listingEnv exampleWorld 1 = (Inr ''tok-1'', exampleWorld)"
    using token_early_return[OF example_token(1,2,3), of listingEnv]
    by (simp add: listingEnv_def exampleEnv_def example_token(4))
  have d: "listingEndpoint listingEnv ''tok-1'' ''abc'' = Inr exampleListing"
    by (simp add: listingEnv_def)
  have x: "extractGuestyId exampleListing = Some ''xyz''"
    by (simp add: extractGuestyId_def exampleListing_def emptyGuestyListing_def)
  have t': "getGuestyAccessToken anonymousListingEnv exampleWorld 1 = (Inr ''tok-1'', exampleWorld)"
    using token_early_return[OF example_token(1,2,3), of anonymousListingEnv]
    by (simp add: anonymousListingEnv_def exampleEnv_def example_token(4))
  have d': "listingEndpoint anonymousListingEnv ''tok-1'' ''abc'' = Inr emptyGuestyListing"
    by (simp add: anonymousListingEnv_def)
  have x': "extractGuestyId emptyGuestyListing = None"
    by (simp add: extractGuestyId_def emptyGuestyListing_def)
  have e: "trace exampleWorld = []" by (simp add: exampleWorld_def)
  from C2_upsert_key[OF t d] C2_upsert_key[OF t' d'] show ?thesis
    by (simp add: x x' e)
qed

text \<open>
  C1: for every host and vendor listing payload, two calls of \<open>syncListingByGuestyId\<close>
  in a row that both get a token and the same payload from the vendor return the same
  Listing record, the second call leaves the Listing table exactly as the first call left
  it, and the table then holds exactly one record with the vendor identifier under which
  the payload is upserted (the table having held at most one before, as the unique key of
  the store demands).
\<close>

theorem C1_sync_twice:
  assumes t1: "getGuestyAccessToken e1 w hid = (Inr tok1, wa)"
    and d1: "listingEndpoint e1 tok1 gid = Inr data"
    and w1: "w1 = snd (syncListingByGuestyId e1 w hid gid)"
    and t2: "getGuestyAccessToken e2 w1 hid = (Inr tok2, wb)"
    and d2: "listingEndpoint e2 tok2 gid = Inr data"
    and key: "key = (case extractGuestyId data of Some i \<Rightarrow> i | None \<Rightarrow> gid)"
    and uniq: "length (filter (\<lambda>l. guestyId l = Some key) (listings w)) \<le> 1"
  shows "\<exists>l w2. syncListingByGuestyId e1 w hid gid = (Inr l, w1)
     \<and> syncListingByGuestyId e2 w1 hid gid = (Inr l, w2)
     \<and> listings w2 = listings w1
     \<and> length (filter (\<lambda>x. guestyId x = Some key) (listings w2)) = 1"
proof -
  obtain c0 u where m: "mapGuestyListingToPrismaData data hid = (c0, u)"
    by (cases "mapGuestyListingToPrismaData data hid")
  let ?c = "c0\<lparr>create_guestyId := key\<rparr>"
  let ?wa = "wa\<lparr>trace := trace wa @ [ListingRequest gid]\<rparr>"
  let ?wb = "wb\<lparr>trace := trace wb @ [ListingRequest gid]\<rparr>"
  obtain l wx where up1: "upsertListing key ?c u ?wa = (l, wx)"
    by (cases "upsertListing key ?c u ?wa")
  from syncListing_success[OF t1 d1 key m] up1
  have s1: "syncListingByGuestyId e1 w hid gid = (Inr l, wx)" by simp
  with w1 have wx: "wx = w1" by simp
  have la: "listings wa = listings w" using token_frame[of e1 w hid] t1 by simp
  have lb: "listings ?wb = listings w1" using token_frame[of e2 w1 hid] t2 by simp
  from upsert_twice[OF m refl up1[unfolded wx] lb]
  have tw: "fst (upsertListing key ?c u ?wb) = l"
     "listings (snd (upsertListing key ?c u ?wb)) = listings w1" by simp_all
  from syncListing_success[OF t2 d2 key m] tw
  have s2: "syncListingByGuestyId e2 w1 hid gid = (Inr l, snd (upsertListing key ?c u ?wb))"
    by simp
  have "length (filter (\<lambda>x. guestyId x = Some key) (listings w1))
      = max 1 (length (filter (\<lambda>l. guestyId l = Some key) (listings ?wa)))"
    using upsert_count[of ?c key u ?wa] up1 wx by simp
  with uniq la have cnt: "length (filter (\<lambda>x. guestyId x = Some key) (listings w1)) = 1"
    by simp
  from s1 wx s2 tw(2) cnt show ?thesis by simp
qed

text \<open>The theorem at work on the vendor's listing \<open>xyz\<close>, synced twice into an empty table.\<close>

theorem C1_sync_twice_witness:
  "\<exists>l w2. syncListingByGuestyId listingEnv exampleWorld 1 ''abc''
        = (Inr l, snd (syncListingByGuestyId listingEnv exampleWorld 1 ''abc''))
     \<and> syncListingByGuestyId listingEnv (snd (syncListingByGuestyId listingEnv exampleWorld 1 ''abc'')) 1 ''abc''
        = (Inr l, w2)
     \<and> listings w2 = listings (snd (syncListingByGuestyId listingEnv exampleWorld 1 ''abc''))
     \<and> length (filter (\<lambda>x. guestyId x = Some ''xyz'') (listings w2)) = 1"
proof -
  let ?w1 = "snd (syncListingByGuestyId listingEnv exampleWorld 1 ''abc'')"
  have t: "getGuestyAccessToken listingEnv exampleWorld 1 = (Inr ''tok-1'', exampleWorld)"
    using token_early_return[OF example_token(1,2,3), of listingEnv]
    by (simp add: listingEnv_def exampleEnv_def example_token(4))
  have d: "listingEndpoint listingEnv ''tok-1'' ''abc'' = Inr exampleListing"
    by (simp add: listingEnv_def)
  have x: "''xyz'' = (case extractGuestyId exampleListing of Some i \<Rightarrow> i | None \<Rightarrow> ''abc'')"
    by (simp add: extractGuestyId_def exampleListing_def emptyGuestyListing_def)
  have h: "hosts ?w1 = hosts exampleWorld"
    using syncListing_hosts[OF t] .
  then have f: "findHost ?w1 1 = Some exampleHost"
    using example_token(1) by (simp add: findHost_def)
  have t2: "getGuestyAccessToken listingEnv ?w1 1 = (Inr ''tok-1'', ?w1)"
    using token_early_return[OF f example_token(2,3), of listingEnv]
    by (simp add: listingEnv_def exampleEnv_def example_token(4))
  have u: "length (filter (\<lambda>l. guestyId l = Some ''xyz'') (listings exampleWorld)) \<le> 1"
    by (simp add: exampleWorld_def)
  from C1_sync_twice[OF t d refl t2 d x u] show ?thesis .
qed

text \<open>
  C5: a vendor listing collection that answers the requests for pages 1, 2 and 3 (limit
  50) with 50, 50 and 13 records, every record carrying a vendor identifier, and that
  reports either no page count or the count 3, makes \<open>syncAllListingsForHost\<close> return
  (with any fuel of at least 3, so the loop ends by itself) exactly 113 synced listings,
  in the order of the vendor's pages, after exactly the three page requests 1, 2, 3, each
  followed by the upserts of its page.
\<close>

theorem C5_three_pages:
  assumes tok: "getGuestyAccessToken e w hid = (Inr tok, w0)"
    and p1: "listingsEndpoint e tok 1 50 = Inr d1"
    and p2: "listingsEndpoint e tok 2 50 = Inr d2"
    and p3: "listingsEndpoint e tok 3 50 = Inr d3"
    and r1: "orDefault (orElse (lr_results d1) (lr_data d1)) [] = r1"
    and r2: "orDefault (orElse (lr_results d2) (lr_data d2)) [] = r2"
    and r3: "orDefault (orElse (lr_results d3) (lr_data d3)) [] = r3"
    and sizes: "length r1 = 50" "length r2 = 50" "length r3 = 13"
    and ids: "\<forall>raw\<in>set (r1 @ r2 @ r3). hasVendorId raw"
    and pages: "lr_pages d1 = None \<or> lr_pages d1 = Some 3"
       "lr_pages d2 = None \<or> lr_pages d2 = Some 3"
       "lr_pages d3 = None \<or> lr_pages d3 = Some 3"
    and fuel: "3 \<le> fuel"
  shows "\<exists>ls w'. syncAllListingsForHost fuel e w hid = Some (Inr ls, w')
     \<and> length ls = 113
     \<and> map guestyId ls = map extractGuestyId (r1 @ r2 @ r3)
     \<and> trace w' = trace w0
         @ ListingsPageRequest 1 50 # map (\<lambda>r. ListingUpsert (the (extractGuestyId r))) r1
         @ ListingsPageRequest 2 50 # map (\<lambda>r. ListingUpsert (the (extractGuestyId r))) r2
         @ ListingsPageRequest 3 50 # map (\<lambda>r. ListingUpsert (the (extractGuestyId r))) r3
     \<and> length (filter isPageRequest (drop (length (trace w0)) (trace w'))) = 3"
proof -
  from fuel obtain n where n: "fuel = Suc (Suc (Suc n))"
    by (metis Suc_le_D Suc_le_mono numeral_3_eq_3)
  let ?U = "map (\<lambda>r. ListingUpsert (the (extractGuestyId r)))"
  have f1: "filter hasVendorId r1 = r1" and f2: "filter hasVendorId r2 = r2"
    and f3: "filter hasVendorId r3 = r3"
    using ids by simp_all
  have ne: "r1 \<noteq> []" "r2 \<noteq> []" "r3 \<noteq> []" using sizes by auto
  let ?w1 = "w0\<lparr>trace := trace w0 @ [ListingsPageRequest 1 50]\<rparr>"
  from syncRecords_result[of hid r1 "[]" ?w1] f1 obtain l1 wa where
    s1: "syncRecords hid r1 [] ?w1 = (l1, wa)"
    and g1: "map guestyId l1 = map extractGuestyId r1"
    and t1: "trace wa = trace ?w1 @ ?U r1"
    by auto
  let ?w2 = "wa\<lparr>trace := trace wa @ [ListingsPageRequest 2 50]\<rparr>"
  from syncRecords_result[of hid r2 l1 ?w2] f2 obtain l2 wb where
    s2: "syncRecords hid r2 l1 ?w2 = (l1 @ l2, wb)"
    and g2: "map guestyId l2 = map extractGuestyId r2"
    and t2: "trace wb = trace ?w2 @ ?U r2"
    by auto
  let ?w3 = "wb\<lparr>trace := trace wb @ [ListingsPageRequest 3 50]\<rparr>"
  from syncRecords_result[of hid r3 "l1 @ l2" ?w3] f3 obtain l3 wc where
    s3: "syncRecords hid r3 (l1 @ l2) ?w3 = ((l1 @ l2) @ l3, wc)"
    and g3: "map guestyId l3 = map extractGuestyId r3"
    and t3: "trace wc = trace ?w3 @ ?U r3"
    by auto
  have st3: "syncPages (Suc n) e tok hid 3 (l1 @ l2) wb = Some (Inr ((l1 @ l2) @ l3), wc)"
    using syncPages_step[OF p3 r3 ne(3) s3, of n] pages(3) sizes(3)
    by (auto simp del: syncPages.simps)
  have st2: "syncPages (Suc (Suc n)) e tok hid 2 l1 wa = Some (Inr ((l1 @ l2) @ l3), wc)"
  proof -
    have "syncPages (Suc (Suc n)) e tok hid 2 l1 wa = syncPages (Suc n) e tok hid (2 + 1) (l1 @ l2) wb"
      using syncPages_step[OF p2 r2 ne(2) s2, of "Suc n"] pages(2) sizes(2)
      by (auto simp del: syncPages.simps One_nat_def)
    also have "(2::nat) + 1 = 3" by simp
    finally show ?thesis using st3 by (simp only:)
  qed
  have st1: "syncPages (Suc (Suc (Suc n))) e tok hid 1 [] w0 = Some (Inr ((l1 @ l2) @ l3), wc)"
  proof -
    have "syncPages (Suc (Suc (Suc n))) e tok hid 1 [] w0 = syncPages (Suc (Suc n)) e tok hid (1 + 1) l1 wa"
      using syncPages_step[OF p1 r1 ne(1) s1, of "Suc (Suc n)"] pages(1) sizes(1)
      by (auto simp del: syncPages.simps One_nat_def)
    also have "(1::nat) + 1 = 2" by simp
    finally show ?thesis using st2 by (simp only:)
  qed
  have res: "syncAllListingsForHost fuel e w hid = Some (Inr ((l1 @ l2) @ l3), wc)"
    using tok n st1 by (simp add: syncAllListingsForHost_def del: syncPages.simps)
  have "length l1 = length r1" "length l2 = length r2" "length l3 = length r3"
    using g1 g2 g3 by (metis length_map)+
  with sizes have len: "length ((l1 @ l2) @ l3) = 113" by simp
  have ids': "map guestyId ((l1 @ l2) @ l3) = map extractGuestyId (r1 @ r2 @ r3)"
    using g1 g2 g3 by simp
  have tr: "trace wc = trace w0
         @ ListingsPageRequest 1 50 # ?U r1
         @ ListingsPageRequest 2 50 # ?U r2
         @ ListingsPageRequest 3 50 # ?U r3"
    using t1 t2 t3 by simp
  have cnt: "length (filter isPageRequest (drop (length (trace w0)) (trace wc))) = 3"
    unfolding tr by (simp add: filter_map comp_def)
  from res len ids' tr cnt show ?thesis by blast
qed

text \<open>The theorem at work on a vendor that serves 113 numbered listings and no page count.\<close>

theorem C5_three_pages_witness:
  "\<exists>ls w'. syncAllListingsForHost 3 pagesEnv exampleWorld 1 = Some (Inr ls, w')
     \<and> length ls = 113
     \<and> length (filter isPageRequest (drop (length (trace exampleWorld)) (trace w'))) = 3"
proof -
  have t: "getGuestyAccessToken pagesEnv exampleWorld 1 = (Inr ''tok-1'', exampleWorld)"
    using token_early_return[OF example_token(1,2,3), of pagesEnv]
    by (simp add: pagesEnv_def exampleEnv_def example_token(4))
  have p1: "listingsEndpoint pagesEnv ''tok-1'' 1 50 = Inr (pageOf (map numberedListing [0..<50]))"
    and p2: "listingsEndpoint pagesEnv ''tok-1'' 2 50 = Inr (pageOf (map numberedListing [50..<100]))"
    and p3: "listingsEndpoint pagesEnv ''tok-1'' 3 50 = Inr (pageOf (map numberedListing [100..<113]))"
    by (simp_all add: pagesEnv_def)
  have r: "\<And>rs. orDefault (orElse (lr_results (pageOf rs)) (lr_data (pageOf rs))) [] = rs"
    by (simp add: pageOf_def)
  have n: "\<And>rs. lr_pages (pageOf rs) = None \<or> lr_pages (pageOf rs) = Some 3"
    by (simp add: pageOf_def)
  have i: "\<forall>raw\<in>set (map numberedListing [0..<50] @ map numberedListing [50..<100]
        @ map numberedListing [100..<113]). hasVendorId raw"
    by (auto simp: hasVendorId_def numberedListing_def extractGuestyId_def emptyGuestyListing_def)
  from C5_three_pages[OF t p1 p2 p3 r r r _ _ _ i n n n, of 3] show ?thesis
    by auto
qed



section \<open>Calendar Synchronizer: properties\<close>







lemma newDecimal_zero: "newDecimal (Num 0) = Dec 0"
  by simp



text \<open>
  The two conversions at work: 120 is a double and its own shortest decimal;
  90071992547409.93 is not a double, the nearest one is 90071992547409.9375, and the
  shortest decimal that converts back to that double is 90071992547409.94.
\<close>

lemma number_examples:
  "toDouble 120 = Num 120"
  "shortestFrom 17 1 120 = 120"
  "toDouble (9007199254740993 / 100) = Num (1441151880758559 / 16)"
  "shortestFrom 17 1 (1441151880758559 / 16) = 4503599627370497 / 50"
  by code_simp+


lemma example_row:
  "hostId exampleRow = 1" "guestyId exampleRow = Some ''xyz''"
  "basePrice exampleRow = Some (Dec 120)" "listing_id exampleRow = 7"
  by (simp_all add: exampleRow_def createListing_def mapGuestyListingToPrismaData_def Let_def
      exampleListing_def emptyGuestyListing_def extractGuestyId_def number_examples)










section \<open>Event Router: properties\<close>

lemma eventTypeOf_non_null: "eventTypeOf e body = Inr eventType \<Longrightarrow> body \<noteq> JNull"
  by (auto simp: eventTypeOf_def)

lemma events_disjoint: "x \<in> set RESERVATION_EVENTS \<Longrightarrow> x \<notin> set LISTING_EVENTS"
  by (auto simp: RESERVATION_EVENTS_def LISTING_EVENTS_def)

text \<open>
  A request body that decodes to \<open>null\<close> (the four bytes \<open>null\<close> are valid JSON) makes
  the handler throw while it reads the event type, before the \<open>try\<close> block: the error
  leaves the handler and no response is sent. The branch for an already decoded body
  guards against this with \<open>?? {}\<close>; the two branches that parse do not.
\<close>

lemma webhook_null_body_throws:
  "jsonParse e s = Some JNull \<Longrightarrow> guestyWebhook e (RawBuffer s) w = (Inl TypeError, w)"
  by (simp add: guestyWebhook_def decodeBody_def eventTypeOf_def)

text \<open>
  C8, as the claim states it, fails for reservation events: that branch of the handler
  never resolves the account, it looks the listing up by its vendor identifier alone. A
  reservation event that names an account no host has, for a stored listing, enqueues a
  calendar job.
\<close>

theorem C8_reservation_event_counterexample:
  "resolveHostIdFromPayload calendarWorld reservationEventBody = Inr None
   \<and> queue calendarWorld = []
   \<and> fst (guestyWebhook exampleEnv (RawOther reservationEventBody) calendarWorld)
       = Inr (Response 200 (JObj [(''ok'', JBool True)]))
   \<and> queue (snd (guestyWebhook exampleEnv (RawOther reservationEventBody) calendarWorld))
       = [SyncCalendar 7]"
proof -
  have r: "resolveHostIdFromPayload calendarWorld reservationEventBody = Inr None"
    by (simp add: resolveHostIdFromPayload_def reservationEventBody_def findHostByAccountId_def
        calendarWorld_def exampleWorld_def exampleHost_def)
  have q: "queue calendarWorld = []" by (simp add: calendarWorld_def exampleWorld_def)
  have d: "decodeBody exampleEnv (RawOther reservationEventBody) = reservationEventBody"
    by (simp add: decodeBody_def reservationEventBody_def)
  have t: "eventTypeOf exampleEnv reservationEventBody = Inr ''reservation.updated''"
    by (simp add: eventTypeOf_def reservationEventBody_def jsToString_def)
  have x: "extractGuestyListingId reservationEventBody = Inr (JStr ''xyz'')"
    by (simp add: extractGuestyListingId_def reservationEventBody_def)
  have f: "findListingByGuestyId calendarWorld (JStr ''xyz'') = Inr (Some exampleRow)"
    by (simp add: findListingByGuestyId_def calendarWorld_def example_row)
  have m: "''reservation.updated'' \<in> set RESERVATION_EVENTS"
    by (simp add: RESERVATION_EVENTS_def)
  have ds: "dispatchEvent calendarWorld reservationEventBody ''reservation.updated''
      = (Inr (), enqueue (SyncCalendar 7) calendarWorld)"
    using events_disjoint[OF m] m by (simp add: dispatchEvent_def x f example_row)
  have g: "guestyWebhook exampleEnv (RawOther reservationEventBody) calendarWorld
      = (Inr (Response 200 (JObj [(''ok'', JBool True)])), enqueue (SyncCalendar 7) calendarWorld)"
    by (simp add: guestyWebhook_def d t ds)
  from r q g show ?thesis by (simp add: enqueue_def)
qed

text \<open>
  C8, amended: for every inbound webhook request whose event type can be read (the body
  does not decode to \<open>null\<close> and its \<open>event\<close>/\<open>type\<close> member converts to a string), the
  handler responds with 200 and \<open>{ ok: true }\<close> and no error leaves it, whatever is
  thrown while the event is resolved; it touches nothing but the queue, to which it adds
  at most one job. A listing event whose vendor account identifier cannot be resolved to a
  host enqueues nothing. A reservation event is dispatched by its listing identifier
  alone: it enqueues one calendar job when a stored listing has that identifier, whether
  or not an account resolves. Any other event enqueues nothing.
\<close>

theorem C8_webhook_always_succeeds:
  assumes "eventTypeOf e (decodeBody e raw) = Inr eventType"
  shows "fst (guestyWebhook e raw w) = Inr (Response 200 (JObj [(''ok'', JBool True)]))
    \<and> (\<exists>js. snd (guestyWebhook e raw w) = w\<lparr>queue := queue w @ js\<rparr> \<and> length js \<le> 1)
    \<and> (eventType \<in> set LISTING_EVENTS
         \<and> (\<forall>h. resolveHostIdFromPayload w (decodeBody e raw) \<noteq> Inr (Some h))
        \<longrightarrow> snd (guestyWebhook e raw w) = w)
    \<and> (eventType \<in> set RESERVATION_EVENTS \<longrightarrow>
         queue (snd (guestyWebhook e raw w)) = queue w @
           (case extractGuestyListingId (decodeBody e raw) of
              Inl err \<Rightarrow> []
            | Inr gid \<Rightarrow>
                if jtruthy gid then
                  (case findListingByGuestyId w gid of
                     Inr (Some listing) \<Rightarrow> [SyncCalendar (listing_id listing)]
                   | Inr None \<Rightarrow> []
                   | Inl err \<Rightarrow> [])
                else []))
    \<and> (eventType \<notin> set LISTING_EVENTS \<and> eventType \<notin> set RESERVATION_EVENTS
        \<longrightarrow> snd (guestyWebhook e raw w) = w)"
proof -
  let ?body = "decodeBody e raw"
  have g: "guestyWebhook e raw w =
      (Inr (Response 200 (JObj [(''ok'', JBool True)])), snd (dispatchEvent w ?body eventType))"
    using assms by (simp add: guestyWebhook_def split: prod.splits)
  have q0: "w = w\<lparr>queue := queue w @ []\<rparr>" by simp
  have a: "\<exists>js. snd (dispatchEvent w ?body eventType) = w\<lparr>queue := queue w @ js\<rparr> \<and> length js \<le> 1"
  proof (cases "snd (dispatchEvent w ?body eventType) = w")
    case True
    with q0 show ?thesis by (intro exI[of _ "[]"]) simp
  next
    case False
    then obtain j where "snd (dispatchEvent w ?body eventType) = enqueue j w"
      by (auto simp: dispatchEvent_def split: sum.splits option.splits if_splits)
    then show ?thesis by (intro exI[of _ "[j]"]) (simp add: enqueue_def)
  qed
  have b: "eventType \<in> set LISTING_EVENTS
         \<and> (\<forall>h. resolveHostIdFromPayload w ?body \<noteq> Inr (Some h))
        \<longrightarrow> snd (dispatchEvent w ?body eventType) = w"
    by (auto simp: dispatchEvent_def split: sum.splits option.splits)
  have c: "eventType \<in> set RESERVATION_EVENTS \<longrightarrow>
         queue (snd (dispatchEvent w ?body eventType)) = queue w @
           (case extractGuestyListingId ?body of
              Inl err \<Rightarrow> []
            | Inr gid \<Rightarrow>
                if jtruthy gid then
                  (case findListingByGuestyId w gid of
                     Inr (Some listing) \<Rightarrow> [SyncCalendar (listing_id listing)]
                   | Inr None \<Rightarrow> []
                   | Inl err \<Rightarrow> [])
                else [])"
    using events_disjoint[of eventType]
    by (auto simp: dispatchEvent_def enqueue_def split: sum.splits option.splits)
  have d: "eventType \<notin> set LISTING_EVENTS \<and> eventType \<notin> set RESERVATION_EVENTS
        \<longrightarrow> snd (dispatchEvent w ?body eventType) = w"
    by (simp add: dispatchEvent_def)
  from a b c d show ?thesis unfolding g by simp
qed

text \<open>
  The theorem at work on a listing event that names an account no host has: the response
  is the success response and the world, its queue included, is left as it was.
\<close>

theorem C8_webhook_always_succeeds_witness:
  "eventTypeOf exampleEnv (decodeBody exampleEnv (RawOther listingEventBody)) = Inr ''listing.updated''
   \<and> resolveHostIdFromPayload calendarWorld listingEventBody = Inr None
   \<and> guestyWebhook exampleEnv (RawOther listingEventBody) calendarWorld
       = (Inr (Response 200 (JObj [(''ok'', JBool True)])), calendarWorld)"
proof -
  have d: "decodeBody exampleEnv (RawOther listingEventBody) = listingEventBody"
    by (simp add: decodeBody_def listingEventBody_def)
  have t: "eventTypeOf exampleEnv (decodeBody exampleEnv (RawOther listingEventBody)) = Inr ''listing.updated''"
    unfolding d by (simp add: eventTypeOf_def listingEventBody_def jsToString_def)
  have r: "resolveHostIdFromPayload calendarWorld listingEventBody = Inr None"
    by (simp add: resolveHostIdFromPayload_def listingEventBody_def findHostByAccountId_def
        calendarWorld_def exampleWorld_def exampleHost_def)
  have m: "''listing.updated'' \<in> set LISTING_EVENTS"
    by (simp add: LISTING_EVENTS_def)
  have n: "\<forall>h. resolveHostIdFromPayload calendarWorld (decodeBody exampleEnv (RawOther listingEventBody))
      \<noteq> Inr (Some h)"
    unfolding d r by simp
  from C8_webhook_always_succeeds[OF t, of calendarWorld] m n
  have "fst (guestyWebhook exampleEnv (RawOther listingEventBody) calendarWorld)
        = Inr (Response 200 (JObj [(''ok'', JBool True)]))"
    and "snd (guestyWebhook exampleEnv (RawOther listingEventBody) calendarWorld) = calendarWorld"
    by blast+
  then have "guestyWebhook exampleEnv (RawOther listingEventBody) calendarWorld
       = (Inr (Response 200 (JObj [(''ok'', JBool True)])), calendarWorld)"
    by (metis prod.collapse)
  with t r show ?thesis by simp
qed

end
